theory Spec2Isabelle
  imports Main "HOL-Library.Sublist"
begin

unbundle bit_operations_syntax

section \<open>Values, errors and bytes\<close>

text \<open>
  Python \<open>bytes\<close> are lists of 8-bit characters; \<open>of_char\<close> reads a byte as a number and
  \<open>char_of\<close> builds one. A Python \<open>str\<close> is modelled by the same type (code points
  below 256).
\<close>

type_synonym bytes = string

text \<open>
  A decoded JSON value, as \<open>json.JSONDecoder\<close> hands it to the driver. Numbers with a
  fraction are left out: no modelled function computes with them.
\<close>

datatype json =
    JNull
  | JBool bool
  | JInt int
  | JStr string
  | JArr "json list"
  | JObj "(string \<times> json) list"

type_synonym jdict = "string \<rightharpoonup> json"

text \<open>Python truthiness of a decoded value; \<open>dict.get\<close> gives \<open>None\<close> for a missing key.\<close>

fun truthy :: "json \<Rightarrow> bool" where
  "truthy JNull = False"
| "truthy (JBool b) = b"
| "truthy (JInt n) = (n \<noteq> 0)"
| "truthy (JStr s) = (s \<noteq> [])"
| "truthy (JArr xs) = (xs \<noteq> [])"
| "truthy (JObj kvs) = (kvs \<noteq> [])"

definition truthy_get :: "jdict \<Rightarrow> string \<Rightarrow> bool" where
  "truthy_get d k = (case d k of None \<Rightarrow> False | Some v \<Rightarrow> truthy v)"

text \<open>
  The exception classes of \<open>core/errors.py\<close>. \<open>ReqlAuthError\<close>, \<open>ReqlTimeoutError\<close> and
  \<open>InvalidHandshakeStateError\<close> derive from \<open>ReqlDriverError\<close>; the query errors derive
  from \<open>ReqlCompileError\<close> or \<open>ReqlRuntimeError\<close>.
\<close>

datatype err_class =
    ReqlDriverError
  | ReqlAuthError
  | ReqlTimeoutError
  | InvalidHandshakeStateError
  | ReqlServerCompileError
  | ReqlRuntimeError
  | ReqlQueryLogicError
  | ReqlNonExistenceError
  | ReqlResourceLimitError
  | ReqlUserError
  | ReqlInternalError
  | ReqlOpFailedError
  | ReqlOpIndeterminateError
  | ReqlPermissionError

text \<open>
  The message of an exception. The driver builds some messages with f-strings from
  values it received; these stay symbolic: \<open>FromServer v\<close> is the received value \<open>v\<close> used
  as the message, \<open>AuthFailed m\<close> is \<open>"Authentication failed, {m}"\<close> of
  \<open>ReqlAuthError.__init__\<close>.
\<close>

datatype message =
    Text string
  | FromServer json
  | AuthFailed message
  | UnknownResponseType int
  | UnsupportedVersion int int int

text \<open>
  What a call can raise: a driver exception with its class and message, or one of the
  built-in exceptions of Python (\<open>struct.error\<close> is \<open>StructError\<close>). The term and the
  backtrace frames that \<open>ReqlError\<close> keeps for pretty-printing are not modelled.
\<close>

datatype error =
    Reql err_class message
  | KeyError
  | AttributeError
  | IndexError
  | ValueError
  | TypeError
  | StructError
  | NotImplementedError

fun is_driver_class :: "err_class \<Rightarrow> bool" where
  "is_driver_class ReqlDriverError = True"
| "is_driver_class ReqlAuthError = True"
| "is_driver_class ReqlTimeoutError = True"
| "is_driver_class InvalidHandshakeStateError = True"
| "is_driver_class _ = False"

text \<open>\<open>isinstance(e, ReqlDriverError)\<close>, \<open>isinstance(e, ReqlAuthError)\<close> and
  \<open>isinstance(e, ReqlError)\<close>.\<close>

fun is_driver_error :: "error \<Rightarrow> bool" where
  "is_driver_error (Reql c m) = is_driver_class c"
| "is_driver_error _ = False"

fun is_auth_error :: "error \<Rightarrow> bool" where
  "is_auth_error (Reql c m) = (c = ReqlAuthError)"
| "is_auth_error _ = False"

fun is_reql_error :: "error \<Rightarrow> bool" where
  "is_reql_error (Reql c m) = True"
| "is_reql_error _ = False"

section \<open>Frame codec (\<open>core/net/msg.py\<close>, \<open>core/net/protocol.py\<close>)\<close>

text \<open>Little-endian fixed-width integers, as \<open>struct\<close> lays them out with \<open>"<"\<close>.\<close>

fun le_bytes :: "nat \<Rightarrow> nat \<Rightarrow> bytes" where
  "le_bytes 0 v = []"
| "le_bytes (Suc n) v = char_of (v mod 256) # le_bytes n (v div 256)"

fun le_nat :: "bytes \<Rightarrow> nat" where
  "le_nat [] = 0"
| "le_nat (b # bs) = of_char b + 256 * le_nat bs"

text \<open>
  \<open>struct.pack("<QL", token, length)\<close>: an unsigned 64-bit and an unsigned 32-bit
  field; a value outside the field's range raises \<open>struct.error\<close>.
\<close>

definition pack_QL :: "int \<Rightarrow> nat \<Rightarrow> error + bytes" where
  "pack_QL t l =
     (if 0 \<le> t \<and> t < 2 ^ 64 \<and> l < 2 ^ 32
      then Inr (le_bytes 8 (nat t) @ le_bytes 4 l)
      else Inl StructError)"

text \<open>
  \<open>struct.unpack("<qL", header_buff)\<close>: the buffer must hold exactly 12 bytes; the first
  field is read as a signed 64-bit integer (two's complement), the second as an unsigned
  32-bit one.
\<close>

definition unpack_qL :: "bytes \<Rightarrow> error + (int \<times> nat)" where
  "unpack_qL b =
     (if length b \<noteq> 12 then Inl StructError
      else let u = le_nat (take 8 b)
           in Inr (if u < 2 ^ 63 then int u else int u - 2 ^ 64, le_nat (drop 8 b)))"

text \<open>
  Modelled from the spec: \<open>core/net/token.py\<close> is not among the sources. A token is an
  opaque 64-bit identifier; the code reads its integer as \<open>token.value\<close> and rebuilds
  a token from an integer with \<open>Token(token_int)\<close>. Tokens are dictionary keys, so two
  tokens are equal when their values are.
\<close>

datatype token = Token (tvalue: int)

text \<open>
  Modelled from the spec: the module \<open>ql2_pb2\<close>, generated from \<open>ql2.proto\<close>, is not among
  the sources. These are the query types of \<open>ql2_pb2.Query.QueryType\<close> and the response
  and error types of \<open>ql2_pb2.Response\<close> that the spec and the code name, with the numbers
  of the wire protocol. The code compares them as integers.
\<close>

definition START :: int where "START = 1"
definition CONTINUE :: int where "CONTINUE = 2"
definition STOP :: int where "STOP = 3"
definition NOREPLY_WAIT :: int where "NOREPLY_WAIT = 4"
definition SERVER_INFO_Q :: int where "SERVER_INFO_Q = 5"

definition SUCCESS_ATOM :: int where "SUCCESS_ATOM = 1"
definition SUCCESS_SEQUENCE :: int where "SUCCESS_SEQUENCE = 2"
definition SUCCESS_PARTIAL :: int where "SUCCESS_PARTIAL = 3"
definition WAIT_COMPLETE :: int where "WAIT_COMPLETE = 4"
definition SERVER_INFO :: int where "SERVER_INFO = 5"
definition CLIENT_ERROR :: int where "CLIENT_ERROR = 16"
definition COMPILE_ERROR :: int where "COMPILE_ERROR = 17"
definition RUNTIME_ERROR :: int where "RUNTIME_ERROR = 18"

definition INTERNAL :: int where "INTERNAL = 1000000"
definition RESOURCE_LIMIT :: int where "RESOURCE_LIMIT = 2000000"
definition QUERY_LOGIC :: int where "QUERY_LOGIC = 3000000"
definition NON_EXISTENCE :: int where "NON_EXISTENCE = 3100000"
definition OP_FAILED :: int where "OP_FAILED = 4100000"
definition OP_INDETERMINATE :: int where "OP_INDETERMINATE = 4200000"
definition USER :: int where "USER = 5000000"
definition PERMISSION_ERROR :: int where "PERMISSION_ERROR = 6000000"

text \<open>
  \<open>class Query\<close>. \<open>term_type\<close> is the optional term (an opaque value of the query
  builder); \<open>kwargs\<close> is the options dictionary, never \<open>None\<close> after
  \<open>self.kwargs = kwargs or {}\<close>.
\<close>

record 't query =
  q_type :: int
  q_token :: token
  term_type :: "'t option"
  kwargs :: "(string \<times> json) list"

text \<open>The elements of the message list that \<open>serialize\<close> hands to the encoder.\<close>

datatype 't msg_part = MType int | MTerm 't | MOpts "(string \<times> json) list"

text \<open>
  \<open>Query.serialize\<close>. The encoder \<open>enc\<close> is the injected
  \<open>reql_encoder.encode(message).encode("utf-8")\<close>.
\<close>

definition serialize :: "('t msg_part list \<Rightarrow> bytes) \<Rightarrow> 't query \<Rightarrow> error + bytes" where
  "serialize enc q =
     (let message = [MType (q_type q)]
            @ (case term_type q of None \<Rightarrow> [] | Some t \<Rightarrow> [MTerm t])
            @ [MOpts (kwargs q)];
          query_bytes = enc message
      in case pack_QL (tvalue (q_token q)) (length query_bytes) of
           Inl e \<Rightarrow> Inl e
         | Inr query_header \<Rightarrow> Inr (query_header @ query_bytes))"

text \<open>
  The header step of \<open>RdbProtocol.read_response\<close>: unpack the 12 bytes and wrap the
  integer in a token.
\<close>

definition read_header :: "bytes \<Rightarrow> error + (token \<times> nat)" where
  "read_header header_buff =
     (case unpack_qL header_buff of
        Inl e \<Rightarrow> Inl e
      | Inr (token_int, len) \<Rightarrow> Inr (Token token_int, len))"


section \<open>Handshake (\<open>core/net/handshake.py\<close>)\<close>

text \<open>
  What the handshake calls outside the repository is a parameter of the model: the JSON
  decoder and encoder objects that the protocol injects, and the functions of Python's
  standard library.
  \<^item> \<open>json_decode\<close>: \<open>self.json_decoder.decode(response.decode("utf-8"))\<close>;
  \<^item> \<open>json_encode\<close>: \<open>self.json_encoder.encode({...})\<close>, the dictionary given as its items;
  \<^item> \<open>int_of_str\<close>: \<open>int(s)\<close> on a string or bytes object;
  \<^item> \<open>b64encode\<close>, \<open>b64decode\<close>: \<open>base64.standard_b64encode\<close> and \<open>standard_b64decode\<close>;
  \<^item> \<open>pbkdf2_hmac_sha256\<close>: \<open>hashlib.pbkdf2_hmac("sha256", password, salt, iterations)\<close>;
  \<^item> \<open>hmac_sha256 key msg\<close>: \<open>hmac.new(key, msg, hashlib.sha256).digest()\<close>;
  \<^item> \<open>sha256\<close>: \<open>hashlib.sha256(data).digest()\<close>.
\<close>

record prims =
  json_decode :: "bytes \<Rightarrow> error + jdict"
  json_encode :: "(string \<times> json) list \<Rightarrow> string"
  int_of_str :: "string \<Rightarrow> error + int"
  b64encode :: "bytes \<Rightarrow> bytes"
  b64decode :: "bytes \<Rightarrow> error + bytes"
  pbkdf2_hmac_sha256 :: "bytes \<Rightarrow> bytes \<Rightarrow> int \<Rightarrow> error + bytes"
  hmac_sha256 :: "bytes \<Rightarrow> bytes \<Rightarrow> bytes"
  sha256 :: "bytes \<Rightarrow> bytes"

text \<open>
  \<open>int(x)\<close> on a decoded JSON value: an integer is itself, a boolean is 0 or 1, a
  string is parsed, anything else raises \<open>TypeError\<close>.
\<close>

definition py_int :: "prims \<Rightarrow> json \<Rightarrow> error + int" where
  "py_int P v =
     (case v of
        JInt n \<Rightarrow> Inr n
      | JBool b \<Rightarrow> Inr (if b then 1 else 0)
      | JStr s \<Rightarrow> int_of_str P s
      | _ \<Rightarrow> Inl TypeError)"

text \<open>
  \<open>s.encode("ascii")\<close> and \<open>b.decode("ascii")\<close> raise a \<open>UnicodeError\<close>, a subclass of
  \<open>ValueError\<close>, on a character above 127. \<open>s.encode("utf-8")\<close> writes such a character
  (below 256 here) as two bytes. \<open>chain_to_bytes\<close> encodes strings as latin-1, which
  leaves every character below 256 as it is, and joins the parts.
\<close>

definition ascii :: "string \<Rightarrow> error + bytes" where
  "ascii s = (if list_all (\<lambda>c. (of_char c :: nat) < 128) s then Inr s else Inl ValueError)"

definition utf8 :: "string \<Rightarrow> bytes" where
  "utf8 s =
     concat (map (\<lambda>c. if (of_char c :: nat) < 128 then [c]
                        else [char_of (192 + (of_char c :: nat) div 64),
                              char_of (128 + (of_char c :: nat) mod 64)]) s)"

definition chain_to_bytes :: "string list \<Rightarrow> bytes" where
  "chain_to_bytes strings = concat strings"

text \<open>\<open>s.replace(old, new)\<close> for a one-character \<open>old\<close>.\<close>

definition replace_char :: "char \<Rightarrow> string \<Rightarrow> string \<Rightarrow> string" where
  "replace_char old new s = concat (map (\<lambda>c. if c = old then new else [c]) s)"

text \<open>\<open>b.split(sep)\<close> for a one-byte separator: always at least one part.\<close>

fun split_on :: "char \<Rightarrow> bytes \<Rightarrow> bytes list" where
  "split_on sep [] = [[]]"
| "split_on sep (x # xs) =
     (if x = sep then [] # split_on sep xs
      else (case split_on sep xs of
              [] \<Rightarrow> [[x]]
            | w # ws \<Rightarrow> (x # w) # ws))"

text \<open>
  \<open>key, value = auth.split(b"=", 1)\<close>: the part before the first separator and the
  part behind it; without a separator the unpacking raises \<open>ValueError\<close>.
\<close>

definition split_once :: "char \<Rightarrow> bytes \<Rightarrow> error + (bytes \<times> bytes)" where
  "split_once sep b =
     (if sep \<in> set b
      then Inr (takeWhile (\<lambda>c. c \<noteq> sep) b, tl (dropWhile (\<lambda>c. c \<noteq> sep) b))
      else Inl ValueError)"

text \<open>The state of \<open>HandshakeV1_0\<close>; \<open>username\<close> is stored escaped.\<close>

record handshake =
  username :: string
  password :: string
  random_nonce :: bytes
  first_client_message :: bytes
  server_signature :: bytes

definition reset :: "handshake \<Rightarrow> handshake" where
  "reset h = h\<lparr>random_nonce := [], first_client_message := [], server_signature := []\<rparr>"

definition HandshakeV1_0 :: "string \<Rightarrow> string \<Rightarrow> handshake" where
  "HandshakeV1_0 user pwd =
     reset \<lparr>username = replace_char CHR '','' ''=2C'' (replace_char CHR ''='' ''=3D'' user),
            password = pwd, random_nonce = [], first_client_message = [],
            server_signature = []\<rparr>"

text \<open>
  Modelled from the spec: \<open>ql2_pb2.VersionDummy.Version.V1_0\<close> is the 4-byte version that
  opens the initial message; the generated module is not among the sources, the number is
  the one of the wire protocol. \<open>protocol_version\<close> is the property of the class.
\<close>

definition V1_0 :: nat where "V1_0 = 0x34c2bdc3"

definition protocol_version :: int where "protocol_version = 0"

text \<open>\<open>__get_authentication_message\<close>: the loop over the comma-separated parts.\<close>

fun auth_fields :: "bytes list \<Rightarrow> (bytes \<rightharpoonup> bytes) \<Rightarrow> error + (bytes \<rightharpoonup> bytes)" where
  "auth_fields [] message = Inr message"
| "auth_fields (auth # rest) message =
     (case split_once CHR ''='' auth of
        Inl e \<Rightarrow> Inl e
      | Inr (key, val) \<Rightarrow> auth_fields rest (message(key \<mapsto> val)))"

text \<open>
  \<open>response["authentication"].encode("ascii")\<close>: \<open>KeyError\<close> for a missing key,
  \<open>AttributeError\<close> for a value that is no string.
\<close>

definition authentication_bytes :: "jdict \<Rightarrow> error + bytes" where
  "authentication_bytes response =
     (case response ''authentication'' of
        None \<Rightarrow> Inl KeyError
      | Some (JStr s) \<Rightarrow> ascii s
      | Some _ \<Rightarrow> Inl AttributeError)"

definition get_authentication_message :: "jdict \<Rightarrow> error + (bytes \<rightharpoonup> bytes)" where
  "get_authentication_message response =
     (case authentication_bytes response of
        Inl e \<Rightarrow> Inl e
      | Inr b \<Rightarrow> auth_fields (split_on CHR '','' b) Map.empty)"

text \<open>\<open>d[key]\<close> on the parsed message.\<close>

definition field :: "(bytes \<rightharpoonup> bytes) \<Rightarrow> bytes \<Rightarrow> error + bytes" where
  "field d k = (case d k of None \<Rightarrow> Inl KeyError | Some v \<Rightarrow> Inr v)"

text \<open>\<open>__decode_json_response\<close>.\<close>

definition decode_json_response :: "prims \<Rightarrow> bytes \<Rightarrow> error + jdict" where
  "decode_json_response P response =
     (case json_decode P response of
        Inl e \<Rightarrow> Inl e
      | Inr json_response \<Rightarrow>
          if \<not> truthy_get json_response ''success'' then
            (case json_response ''error_code'' of
               None \<Rightarrow> Inl KeyError
             | Some code \<Rightarrow>
                 (case py_int P code of
                    Inl e \<Rightarrow> Inl e
                  | Inr n \<Rightarrow>
                      if 10 \<le> n \<and> n \<le> 20 then
                        (case json_response ''error'' of
                           None \<Rightarrow> Inl KeyError
                         | Some m \<Rightarrow> Inl (Reql ReqlAuthError (AuthFailed (FromServer m))))
                      else
                        (case json_response ''error'' of
                           None \<Rightarrow> Inl KeyError
                         | Some m \<Rightarrow> Inl (Reql ReqlDriverError (FromServer m)))))
          else Inr json_response)"

text \<open>
  \<open>__initialize_connection\<close>. \<open>rand\<close> stands for the 18 bytes drawn from
  \<open>SystemRandom\<close>. The result is the updated state and the initial message.
\<close>

definition initialize_connection ::
  "prims \<Rightarrow> handshake \<Rightarrow> bytes \<Rightarrow> error + (handshake \<times> bytes)" where
  "initialize_connection P h rand =
     (let nonce = b64encode P rand;
          fcm = chain_to_bytes [''n='', username h, '',r='', nonce];
          h1 = h\<lparr>random_nonce := nonce, first_client_message := fcm\<rparr>
      in case ascii (chain_to_bytes [''n,,'', fcm]) of
           Inl e \<Rightarrow> Inl e
         | Inr authentication \<Rightarrow>
             Inr (h1,
                  chain_to_bytes
                    [le_bytes 4 V1_0,
                     utf8 (json_encode P
                             [(''protocol_version'', JInt protocol_version),
                              (''authentication_method'', JStr ''SCRAM-SHA-256''),
                              (''authentication'', JStr authentication)]),
                     [CHR 0x00]]))"

text \<open>\<open>__read_response\<close>, the answer to the initial message.\<close>

definition hs_read_response :: "prims \<Rightarrow> bytes \<Rightarrow> error + bytes" where
  "hs_read_response P response =
     (case decode_json_response P response of
        Inl e \<Rightarrow> Inl e
      | Inr json_response \<Rightarrow>
          (case json_response ''min_protocol_version'' of
             None \<Rightarrow> Inl KeyError
           | Some a \<Rightarrow>
               (case py_int P a of
                  Inl e \<Rightarrow> Inl e
                | Inr min_protocol_version \<Rightarrow>
                    (case json_response ''max_protocol_version'' of
                       None \<Rightarrow> Inl KeyError
                     | Some b \<Rightarrow>
                         (case py_int P b of
                            Inl e \<Rightarrow> Inl e
                          | Inr max_protocol_version \<Rightarrow>
                              if \<not> (min_protocol_version \<le> protocol_version
                                    \<and> protocol_version \<le> max_protocol_version)
                              then Inl (Reql ReqlDriverError
                                          (UnsupportedVersion protocol_version
                                             min_protocol_version max_protocol_version))
                              else Inr [])))))"

text \<open>
  \<open>struct.pack("32B", *(l ^ r for l, r in zip(unpack("32B", a), unpack("32B", b))))\<close>:
  both arguments must hold exactly 32 bytes.
\<close>

definition xor_32B :: "bytes \<Rightarrow> bytes \<Rightarrow> error + bytes" where
  "xor_32B a b =
     (if length a \<noteq> 32 \<or> length b \<noteq> 32 then Inl StructError
      else Inr (map (\<lambda>(l, r). char_of ((of_char l :: nat) XOR of_char r)) (zip a b)))"

text \<open>\<open>b",".join(parts)\<close>.\<close>

fun join_comma :: "bytes list \<Rightarrow> bytes" where
  "join_comma [] = []"
| "join_comma [x] = x"
| "join_comma (x # y # ys) = x @ '','' @ join_comma (y # ys)"

text \<open>
  The computation of \<open>__prepare_auth_request\<close> behind the nonce check: from the password,
  the client's first message, the server's first message and the parsed fields to the
  server signature the client expects and the client proof.
\<close>

definition scram_proof ::
  "prims \<Rightarrow> handshake \<Rightarrow> bytes \<Rightarrow> (bytes \<rightharpoonup> bytes) \<Rightarrow> bytes \<Rightarrow> error + (bytes \<times> bytes)" where
  "scram_proof P h server_first authentication message_without_proof =
     (case field authentication ''s'' of
        Inl e \<Rightarrow> Inl e
      | Inr s \<Rightarrow>
     (case b64decode P s of
        Inl e \<Rightarrow> Inl e
      | Inr salt \<Rightarrow>
     (case field authentication ''i'' of
        Inl e \<Rightarrow> Inl e
      | Inr i \<Rightarrow>
     (case int_of_str P i of
        Inl e \<Rightarrow> Inl e
      | Inr iterations \<Rightarrow>
     (case pbkdf2_hmac_sha256 P (utf8 (password h)) salt iterations of
        Inl e \<Rightarrow> Inl e
      | Inr salted_password \<Rightarrow>
          (let auth_message =
                 join_comma [first_client_message h, server_first, message_without_proof];
               signature =
                 hmac_sha256 P (hmac_sha256 P salted_password ''Server Key'') auth_message;
               client_key = hmac_sha256 P salted_password ''Client Key'';
               client_signature = hmac_sha256 P (sha256 P client_key) auth_message
           in case xor_32B client_key client_signature of
                Inl e \<Rightarrow> Inl e
              | Inr client_proof \<Rightarrow> Inr (signature, client_proof)))))))"

text \<open>
  \<open>__prepare_auth_request\<close>: the updated state (with the expected server signature) and
  the authentication request that carries the client proof.
\<close>

definition prepare_auth_request ::
  "prims \<Rightarrow> handshake \<Rightarrow> bytes \<Rightarrow> error + (handshake \<times> bytes)" where
  "prepare_auth_request P h response =
     (case decode_json_response P response of
        Inl e \<Rightarrow> Inl e
      | Inr json_response \<Rightarrow>
     (case authentication_bytes json_response of
        Inl e \<Rightarrow> Inl e
      | Inr server_first \<Rightarrow>
     (case get_authentication_message json_response of
        Inl e \<Rightarrow> Inl e
      | Inr authentication \<Rightarrow>
     (case field authentication ''r'' of
        Inl e \<Rightarrow> Inl e
      | Inr nonce \<Rightarrow>
          if \<not> prefix (random_nonce h) nonce then
            Inl (Reql ReqlAuthError (AuthFailed (Text ''Invalid nonce from server'')))
          else
            (let message_without_proof = chain_to_bytes [''c=biws,r='', nonce]
             in case scram_proof P h server_first authentication message_without_proof of
                  Inl e \<Rightarrow> Inl e
                | Inr (signature, client_proof) \<Rightarrow>
                    (case ascii (chain_to_bytes
                                   [message_without_proof, '',p='', b64encode P client_proof]) of
                       Inl e \<Rightarrow> Inl e
                     | Inr a \<Rightarrow>
                         Inr (h\<lparr>server_signature := signature\<rparr>,
                              chain_to_bytes
                                [json_encode P [(''authentication'', JStr a)], [CHR 0x00]])))))))"

text \<open>\<open>__read_auth_response\<close>; \<open>hmac.compare_digest\<close> is equality of the two byte strings.\<close>

definition read_auth_response :: "prims \<Rightarrow> handshake \<Rightarrow> bytes \<Rightarrow> error + unit" where
  "read_auth_response P h response =
     (case decode_json_response P response of
        Inl e \<Rightarrow> Inl e
      | Inr json_response \<Rightarrow>
     (case get_authentication_message json_response of
        Inl e \<Rightarrow> Inl e
      | Inr authentication \<Rightarrow>
     (case field authentication ''v'' of
        Inl e \<Rightarrow> Inl e
      | Inr v \<Rightarrow>
     (case b64decode P v of
        Inl e \<Rightarrow> Inl e
      | Inr signature \<Rightarrow>
          if signature \<noteq> server_signature h then
            Inl (Reql ReqlAuthError (AuthFailed (Text ''Invalid server signature'')))
          else Inr ()))))"

text \<open>
  The generator \<open>run\<close>, driven with the three responses of the server: the messages it
  yields, in order, up to its end or to the exception that ends it, and then the
  exception or the final state. The transport sends each yielded message that is not
  empty.
\<close>

definition run ::
  "prims \<Rightarrow> handshake \<Rightarrow> bytes \<Rightarrow> bytes \<Rightarrow> bytes \<Rightarrow> bytes \<Rightarrow> bytes list \<times> (error + handshake)" where
  "run P h rand init_response auth_response1 auth_response2 =
     (case initialize_connection P (reset h) rand of
        Inl e \<Rightarrow> ([], Inl e)
      | Inr (h1, m1) \<Rightarrow>
     (case hs_read_response P init_response of
        Inl e \<Rightarrow> ([m1], Inl e)
      | Inr m2 \<Rightarrow>
     (case prepare_auth_request P h1 auth_response1 of
        Inl e \<Rightarrow> ([m1, m2], Inl e)
      | Inr (h2, m3) \<Rightarrow>
     (case read_auth_response P h2 auth_response2 of
        Inl e \<Rightarrow> ([m1, m2, m3], Inl e)
      | Inr _ \<Rightarrow> ([m1, m2, m3], Inr h2)))))"

section \<open>Connection construction (\<open>core/net/conn_config.py\<close>, \<open>connections.py\<close>)\<close>

text \<open>
  \<open>ConnectionConfig\<close>. \<open>cfg_ssl\<close> is the \<open>SSLParams\<close> dictionary: its \<open>ca_certs\<close> entry, or
  \<open>None\<close> for the empty dictionary. The encoder and decoder classes are left out.
\<close>

record connection_config =
  cfg_host :: string
  cfg_port :: int
  cfg_db :: string
  cfg_user :: string
  cfg_password :: string
  cfg_timeout :: int
  cfg_ssl :: "string option"

text \<open>
  A connection URL as \<open>urlparse\<close> and \<open>parse_qs\<close> take it apart: the optional user name,
  password and host name, the port (reading it raises \<open>ValueError\<close> for a port that is
  no number in range), the path and the values of the query parameter \<open>timeout\<close>.
\<close>

record parsed_url =
  url_username :: "string option"
  url_password :: "string option"
  url_hostname :: "string option"
  url_port :: "error + int option"
  url_path :: string
  url_timeout :: "string list"

definition DEFAULT_PWD :: string where "DEFAULT_PWD = ''''"
definition DEFAULT_DB :: string where "DEFAULT_DB = ''test''"
definition DEFAULT_TIMEOUT :: int where "DEFAULT_TIMEOUT = 20"

text \<open>\<open>a or b\<close> for an optional string and for an optional integer.\<close>

definition or_str :: "string option \<Rightarrow> string \<Rightarrow> string" where
  "or_str a b = (case a of None \<Rightarrow> b | Some s \<Rightarrow> if s = [] then b else s)"

definition or_int :: "int option \<Rightarrow> int \<Rightarrow> int" where
  "or_int a b = (case a of None \<Rightarrow> b | Some n \<Rightarrow> if n = 0 then b else n)"

text \<open>
  \<open>ConnectionConfig.new\<close>. \<open>url\<close> is \<open>None\<close> for a missing or empty URL. No argument is
  checked: the only exceptions come from reading the URL's port and from \<open>int\<close> on its
  timeout parameter.
\<close>

definition ConnectionConfig_new ::
  "prims \<Rightarrow> string \<Rightarrow> int \<Rightarrow> string \<Rightarrow> string \<Rightarrow> string option \<Rightarrow> int \<Rightarrow> string option
     \<Rightarrow> parsed_url option \<Rightarrow> error + connection_config" where
  "ConnectionConfig_new P host port db user pwd timeout ssl url =
     (let pwd1 = or_str pwd DEFAULT_PWD
      in case url of
           None \<Rightarrow>
             Inr \<lparr>cfg_host = host, cfg_port = port, cfg_db = db, cfg_user = user,
                  cfg_password = pwd1, cfg_timeout = timeout, cfg_ssl = ssl\<rparr>
         | Some connection_string \<Rightarrow>
             (case url_port connection_string of
                Inl e \<Rightarrow> Inl e
              | Inr url_port_value \<Rightarrow>
                  (case (case url_timeout connection_string of
                           [] \<Rightarrow> Inr DEFAULT_TIMEOUT
                         | t # _ \<Rightarrow> int_of_str P t) of
                     Inl e \<Rightarrow> Inl e
                   | Inr timeout1 \<Rightarrow>
                       Inr \<lparr>cfg_host = or_str (url_hostname connection_string) host,
                            cfg_port = or_int url_port_value port,
                            cfg_db = or_str (Some (filter (\<lambda>c. c \<noteq> CHR ''/'')
                                                     (url_path connection_string)))
                                       DEFAULT_DB,
                            cfg_user = or_str (url_username connection_string) user,
                            cfg_password = or_str (url_password connection_string) pwd1,
                            cfg_timeout = timeout1, cfg_ssl = ssl\<rparr>)))"

text \<open>
  The world outside the driver, as far as opening a connection meets it: what
  \<open>socket.create_connection\<close> does for a host, a port and a timeout, and which files
  exist.
\<close>

datatype tcp_result = Connected | TimedOut | Failed

record env =
  tcp :: "string \<Rightarrow> int \<Rightarrow> int \<Rightarrow> tcp_result"
  files :: "string set"

text \<open>The input and output operations of opening a connection, in the order they happen.\<close>

datatype io_event = TcpConnect string int int | LoadCert string | TlsWrap string

text \<open>
  \<open>DefaultClient.connect\<close>: first \<open>new_socket\<close>, then, with a \<open>ca_certs\<close> entry,
  \<open>ssl_ctx\<close>, whose \<open>load_verify_locations\<close> raises \<open>FileNotFoundError\<close> for a missing
  file; \<open>except_socket_err\<close> turns that into a driver error. The TLS handshake itself is
  taken to succeed.
\<close>

definition DefaultClient_connect ::
  "env \<Rightarrow> string \<Rightarrow> int \<Rightarrow> string option \<Rightarrow> int \<Rightarrow> io_event list \<times> (error + unit)" where
  "DefaultClient_connect E host port ssl timeout =
     (case tcp E host port timeout of
        TimedOut \<Rightarrow>
          ([TcpConnect host port timeout],
           Inl (Reql ReqlTimeoutError (Text ''Could not connect, operation timed out'')))
      | Failed \<Rightarrow>
          ([TcpConnect host port timeout],
           Inl (Reql ReqlDriverError (Text ''Could not connect'')))
      | Connected \<Rightarrow>
          (case ssl of
             None \<Rightarrow> ([TcpConnect host port timeout], Inr ())
           | Some path \<Rightarrow>
               if path \<notin> files E then
                 ([TcpConnect host port timeout, LoadCert path],
                  Inl (Reql ReqlDriverError (Text ''SSL handshake failed'')))
               else
                 ([TcpConnect host port timeout, LoadCert path, TlsWrap host], Inr ())))"

text \<open>
  \<open>new_connection\<close> up to the open socket: the configuration is built, the handshake,
  protocol, transport and connection objects are composed (no input or output), and
  \<open>reconnect\<close> calls the client's \<open>connect\<close> with the configured timeout.
\<close>

definition new_connection ::
  "prims \<Rightarrow> env \<Rightarrow> string \<Rightarrow> int \<Rightarrow> string \<Rightarrow> string \<Rightarrow> string option \<Rightarrow> int \<Rightarrow> string option
     \<Rightarrow> parsed_url option \<Rightarrow> io_event list \<times> (error + connection_config)" where
  "new_connection P E host port db user pwd timeout ssl url =
     (case ConnectionConfig_new P host port db user pwd timeout ssl url of
        Inl e \<Rightarrow> ([], Inl e)
      | Inr cfg \<Rightarrow>
          (case DefaultClient_connect E (cfg_host cfg) (cfg_port cfg) (cfg_ssl cfg)
                  (cfg_timeout cfg) of
             (events, Inl e) \<Rightarrow> (events, Inl e)
           | (events, Inr _) \<Rightarrow> (events, Inr cfg)))"

section \<open>Responses (\<open>core/net/msg.py\<close>)\<close>

text \<open>
  The body of a response as the injected decoder returns it: the response type \<open>t\<close>, the
  data array \<open>r\<close> and the optional backtrace \<open>b\<close>, profile \<open>p\<close>, error subtype \<open>e\<close> and
  notes \<open>n\<close>.
\<close>

record decoded =
  r_type :: int
  r_data :: "json list"
  backtrace :: "int list option"
  profile :: "json option"
  error_type :: "int option"
  response_note :: "int list option"

record response = decoded +
  r_token :: token

text \<open>\<open>Response.__init__\<close>, after the decoder has run.\<close>

definition Response :: "token \<Rightarrow> decoded \<Rightarrow> response" where
  "Response tok d =
     \<lparr>r_type = r_type d, r_data = r_data d, backtrace = backtrace d, profile = profile d,
      error_type = error_type d, response_note = response_note d, r_token = tok\<rparr>"

definition is_sequential :: "response \<Rightarrow> bool" where
  "is_sequential res = (r_type res = SUCCESS_PARTIAL \<or> r_type res = SUCCESS_SEQUENCE)"

definition is_success_atom :: "response \<Rightarrow> bool" where
  "is_success_atom res = (r_type res = SUCCESS_ATOM)"

definition is_success_partial :: "response \<Rightarrow> bool" where
  "is_success_partial res = (r_type res = SUCCESS_PARTIAL)"

definition is_success_sequence :: "response \<Rightarrow> bool" where
  "is_success_sequence res = (r_type res = SUCCESS_SEQUENCE)"

definition is_server_info :: "response \<Rightarrow> bool" where
  "is_server_info res = (r_type res = SERVER_INFO)"

definition is_wait_complete :: "response \<Rightarrow> bool" where
  "is_wait_complete res = (r_type res = WAIT_COMPLETE)"

definition is_client_error :: "response \<Rightarrow> bool" where
  "is_client_error res = (r_type res = CLIENT_ERROR)"

definition is_compile_error :: "response \<Rightarrow> bool" where
  "is_compile_error res = (r_type res = COMPILE_ERROR)"

definition is_runtime_error :: "response \<Rightarrow> bool" where
  "is_runtime_error res = (r_type res = RUNTIME_ERROR)"

text \<open>\<open>self.data[0]\<close>: \<open>IndexError\<close> on an empty array.\<close>

fun index0 :: "'a list \<Rightarrow> error + 'a" where
  "index0 [] = Inl IndexError"
| "index0 (x # xs) = Inr x"

text \<open>The dictionary of \<open>make_error\<close> with its default, \<open>.get(self.error_type, ReqlRuntimeError)\<close>.\<close>

definition err_type_of :: "int option \<Rightarrow> err_class" where
  "err_type_of e =
     (case e of
        None \<Rightarrow> ReqlRuntimeError
      | Some k \<Rightarrow>
          if k = INTERNAL then ReqlInternalError
          else if k = RESOURCE_LIMIT then ReqlResourceLimitError
          else if k = QUERY_LOGIC then ReqlQueryLogicError
          else if k = NON_EXISTENCE then ReqlNonExistenceError
          else if k = OP_FAILED then ReqlOpFailedError
          else if k = OP_INDETERMINATE then ReqlOpIndeterminateError
          else if k = USER then ReqlUserError
          else if k = PERMISSION_ERROR then ReqlPermissionError
          else ReqlRuntimeError)"

text \<open>
  \<open>Response.make_error\<close>: \<open>Inr\<close> is the exception object it returns, \<open>Inl\<close> what building it
  raises. The query argument only supplies the term for pretty-printing and is left out.
\<close>

definition make_error :: "response \<Rightarrow> error + error" where
  "make_error res =
     (if is_client_error res then
        (case index0 (r_data res) of
           Inl e \<Rightarrow> Inl e
         | Inr m \<Rightarrow> Inr (Reql ReqlDriverError (FromServer m)))
      else if is_compile_error res then
        (case index0 (r_data res) of
           Inl e \<Rightarrow> Inl e
         | Inr m \<Rightarrow> Inr (Reql ReqlServerCompileError (FromServer m)))
      else if is_runtime_error res then
        (let err_type = err_type_of (error_type res)
         in case index0 (r_data res) of
              Inl e \<Rightarrow> Inl e
            | Inr m \<Rightarrow> Inr (Reql err_type (FromServer m)))
      else Inr (Reql ReqlDriverError (UnknownResponseType (r_type res))))"

text \<open>
  What \<open>get_data\<close> returns: the first element of the data array, the whole array, or
  \<open>None\<close>.
\<close>

datatype user_data = Atom json | Batch "json list" | PyNone

definition get_data :: "response \<Rightarrow> error + user_data" where
  "get_data res =
     (if is_success_atom res then
        (case index0 (r_data res) of Inl e \<Rightarrow> Inl e | Inr v \<Rightarrow> Inr (Atom v))
      else if is_sequential res then Inr (Batch (r_data res))
      else if is_server_info res then
        (case index0 (r_data res) of Inl e \<Rightarrow> Inl e | Inr v \<Rightarrow> Inr (Atom v))
      else if is_wait_complete res then Inr PyNone
      else (case make_error res of Inl e \<Rightarrow> Inl e | Inr e \<Rightarrow> Inl e))"

section \<open>Cursor and connection state\<close>

text \<open>
  An instance attribute that \<open>__init__\<close> may not have assigned: reading an unset
  attribute raises \<open>AttributeError\<close>.
\<close>

datatype 'a attr = Unset | Bound 'a

definition getattr :: "'a attr \<Rightarrow> error + 'a" where
  "getattr a = (case a of Unset \<Rightarrow> Inl AttributeError | Bound v \<Rightarrow> Inr v)"

text \<open>
  \<open>class Cursor\<close>. \<open>c_error\<close> is the attribute \<open>error\<close>: \<open>Bound None\<close> is Python's
  \<open>None\<close>, \<open>Bound (Some e)\<close> a captured exception. The context \<open>ctx\<close> is the connection,
  passed to each operation.
\<close>

record 't cursor =
  c_query :: "'t query"
  items :: "json list"
  completed :: bool
  threshold :: "nat attr"
  outstanding_requests :: "int attr"
  c_error :: "error option attr"

text \<open>
  The state that the connection, its transport, the socket client and the protocol
  object share, as one record:
  \<^item> \<open>is_open\<close>: the client's socket is set (\<open>DefaultClient.is_open\<close>);
  \<^item> \<open>closing\<close>: \<open>DefaultTransport._closing\<close>;
  \<^item> \<open>sent\<close>: the byte strings written with \<open>sendall\<close>, in order;
  \<^item> \<open>inbox\<close>: the frames the server has delivered and the driver has not read yet,
    each as its 12-byte header and its decoded body;
  \<^item> \<open>waiting_respose\<close> and \<open>cursor_cache\<close>: the two tables of \<open>RdbProtocol\<close>;
  \<^item> \<open>next_token\<close>: the counter of the token generator.
\<close>

record 't conn =
  is_open :: bool
  closing :: bool
  sent :: "bytes list"
  inbox :: "(bytes \<times> decoded) list"
  waiting_respose :: "token \<rightharpoonup> 't query"
  cursor_cache :: "token \<rightharpoonup> 't cursor"
  next_token :: int

text \<open>\<open>Q_Continue\<close>, \<open>Q_Stop\<close>, \<open>Q_NoReplayWait\<close> with \<open>term_type=None, kwargs=None\<close>.\<close>

definition Q_Continue :: "token \<Rightarrow> 't query" where
  "Q_Continue tok = \<lparr>q_type = CONTINUE, q_token = tok, term_type = None, kwargs = []\<rparr>"

definition Q_Stop :: "token \<Rightarrow> 't query" where
  "Q_Stop tok = \<lparr>q_type = STOP, q_token = tok, term_type = None, kwargs = []\<rparr>"

definition Q_NoReplayWait :: "token \<Rightarrow> 't query" where
  "Q_NoReplayWait tok = \<lparr>q_type = NOREPLY_WAIT, q_token = tok, term_type = None, kwargs = []\<rparr>"

text \<open>\<open>Connection.__check_open\<close>.\<close>

definition check_open :: "'t conn \<Rightarrow> error + unit" where
  "check_open c =
     (if \<not> is_open c then Inl (Reql ReqlDriverError (Text ''Connection is closed.''))
      else Inr ())"

text \<open>\<open>RdbProtocol.build_query\<close>.\<close>

definition build_query ::
  "('t msg_part list \<Rightarrow> bytes) \<Rightarrow> 't conn \<Rightarrow> 't query \<Rightarrow> bool \<Rightarrow> error + ('t conn \<times> bytes)" where
  "build_query enc c query noreply =
     (case serialize enc query of
        Inl e \<Rightarrow> Inl e
      | Inr data \<Rightarrow>
          Inr (if \<not> noreply
               then c\<lparr>waiting_respose := (waiting_respose c)(q_token query \<mapsto> query)\<rparr>
               else c, data))"

text \<open>
  \<open>DefaultClient.sendall\<close>: nothing is written for empty data; on a closed client the
  \<open>sock\<close> property raises and \<open>except_send_err\<close> turns that into a driver error. Failures
  of the operating system's socket are not modelled.
\<close>

definition sendall :: "'t conn \<Rightarrow> bytes \<Rightarrow> error + 't conn" where
  "sendall c data =
     (if data = [] then Inr c
      else if \<not> is_open c then Inl (Reql ReqlDriverError (Text ''Error sending''))
      else Inr (c\<lparr>sent := sent c @ [data]\<rparr>))"

text \<open>
  The first half of \<open>DefaultTransport.run_query\<close>: build the query and send it. With
  \<open>noreply\<close> set, \<open>run_query\<close> returns right after it.
\<close>

definition transmit ::
  "('t msg_part list \<Rightarrow> bytes) \<Rightarrow> 't conn \<Rightarrow> 't query \<Rightarrow> bool \<Rightarrow> error + 't conn" where
  "transmit enc c query noreply =
     (case build_query enc c query noreply of
        Inl e \<Rightarrow> Inl e
      | Inr (c1, data) \<Rightarrow> sendall c1 data)"

text \<open>\<open>Connection.resume\<close> and \<open>Connection.stop\<close>: \<open>run_query(query, True)\<close>.\<close>

definition resume ::
  "('t msg_part list \<Rightarrow> bytes) \<Rightarrow> 't conn \<Rightarrow> 't cursor \<Rightarrow> error + 't conn" where
  "resume enc c cur =
     (case check_open c of
        Inl e \<Rightarrow> Inl e
      | Inr _ \<Rightarrow> transmit enc c (Q_Continue (q_token (c_query cur))) True)"

definition stop ::
  "('t msg_part list \<Rightarrow> bytes) \<Rightarrow> 't conn \<Rightarrow> 't cursor \<Rightarrow> error + 't conn" where
  "stop enc c cur =
     (case check_open c of
        Inl e \<Rightarrow> Inl e
      | Inr _ \<Rightarrow> transmit enc c (Q_Stop (q_token (c_query cur))) True)"

section \<open>Cursor (\<open>core/net/cursor.py\<close>)\<close>

text \<open>\<open>Cursor._extend_internal\<close>.\<close>

definition extend_internal :: "'t cursor \<Rightarrow> response \<Rightarrow> error + 't cursor" where
  "extend_internal cur res =
     (let cur1 = cur\<lparr>threshold := Bound (length (r_data res))\<rparr>
      in if completed cur1 then Inr cur1
         else if is_success_partial res then
           Inr (cur1\<lparr>items := items cur1 @ r_data res\<rparr>)
         else if is_success_sequence res then
           Inr (cur1\<lparr>items := items cur1 @ r_data res, completed := True\<rparr>)
         else
           (case make_error res of
              Inl e \<Rightarrow> Inl e
            | Inr e \<Rightarrow> Inr (cur1\<lparr>c_error := Bound (Some e)\<rparr>)))"

text \<open>
  \<open>Cursor.__init__\<close>: it assigns \<open>ctx\<close>, \<open>query\<close>, \<open>items\<close> and \<open>completed\<close> and calls
  \<open>_extend_internal\<close>; the assignments to \<open>outstanding_requests\<close>, \<open>threshold\<close> and
  \<open>error\<close> are commented out in the source.
\<close>

definition Cursor_init :: "'t query \<Rightarrow> response \<Rightarrow> error + 't cursor" where
  "Cursor_init query first_response =
     extend_internal
       \<lparr>c_query = query, items = [], completed = False, threshold = Unset,
        outstanding_requests = Unset, c_error = Unset\<rparr>
       first_response"

text \<open>
  \<open>Cursor._maybe_fetch_batch\<close>. The condition is evaluated left to right and stops at
  the first false conjunct. The result also tells whether \<open>ctx.resume\<close> was called, that
  is, whether a CONTINUE was issued.
\<close>

definition maybe_fetch_batch ::
  "('t msg_part list \<Rightarrow> bytes) \<Rightarrow> 't conn \<Rightarrow> 't cursor \<Rightarrow> error + ('t conn \<times> 't cursor \<times> bool)" where
  "maybe_fetch_batch enc c cur =
     (case getattr (c_error cur) of
        Inl e \<Rightarrow> Inl e
      | Inr err \<Rightarrow>
          if err \<noteq> None then Inr (c, cur, False)
          else (case getattr (threshold cur) of
             Inl e \<Rightarrow> Inl e
           | Inr th \<Rightarrow>
               if \<not> length (items cur) < th then Inr (c, cur, False)
               else (case getattr (outstanding_requests cur) of
                  Inl e \<Rightarrow> Inl e
                | Inr n \<Rightarrow>
                    if n \<noteq> 0 then Inr (c, cur, False)
                    else (let cur1 = cur\<lparr>outstanding_requests := Bound (n + 1)\<rparr>
                          in case resume enc c cur1 of
                               Inl e \<Rightarrow> Inl e
                             | Inr c1 \<Rightarrow> Inr (c1, cur1, True)))))"

text \<open>\<open>Cursor.extend\<close>.\<close>

definition extend ::
  "('t msg_part list \<Rightarrow> bytes) \<Rightarrow> 't conn \<Rightarrow> 't cursor \<Rightarrow> response \<Rightarrow> error + ('t conn \<times> 't cursor)" where
  "extend enc c cur res =
     (case getattr (outstanding_requests cur) of
        Inl e \<Rightarrow> Inl e
      | Inr n \<Rightarrow>
          (case maybe_fetch_batch enc c (cur\<lparr>outstanding_requests := Bound (n - 1)\<rparr>) of
             Inl e \<Rightarrow> Inl e
           | Inr (c1, cur1, issued) \<Rightarrow>
               (case extend_internal cur1 res of
                  Inl e \<Rightarrow> Inl e
                | Inr cur2 \<Rightarrow> Inr (c1, cur2))))"

text \<open>\<open>Cursor.close\<close>: \<open>self.ctx.stop(self)\<close>.\<close>

definition cursor_close ::
  "('t msg_part list \<Rightarrow> bytes) \<Rightarrow> 't conn \<Rightarrow> 't cursor \<Rightarrow> error + 't conn" where
  "cursor_close enc c cur = stop enc c cur"

text \<open>
  \<open>Cursor.__str__\<close>, which \<open>print\<close> calls on a cursor: \<open>_fmt_cursor\<close> formats the items and
  then reads \<open>obj.error\<close> for the status. The result is the status alone: streaming for
  \<open>None\<close>, otherwise the error. (\<open>ReqlCursorEmpty\<close>, the status "done streaming", is not
  among the modelled exceptions: no statement of the source assigns it.)
\<close>

datatype cursor_status = Streaming | Errored error

definition fmt_cursor :: "'t cursor \<Rightarrow> error + cursor_status" where
  "fmt_cursor obj =
     (case getattr (c_error obj) of
        Inl e \<Rightarrow> Inl e
      | Inr None \<Rightarrow> Inr Streaming
      | Inr (Some e) \<Rightarrow> Inr (Errored e))"

section \<open>Response router (\<open>RdbProtocol.read_response\<close>)\<close>

text \<open>
  \<open>read_response\<close>, given the 12 header bytes and the decoded body that the two
  \<open>yield\<close>s receive. The generator returns nothing: the result is the state it leaves, or
  the exception it raises.
  \<^item> \<open>dict.pop(token)\<close> without a default raises \<open>KeyError\<close> for a missing key;
    \<open>pop_waiting\<close> is the table after the pop.
  \<^item> A cursor found in the cache is extended in place.
  \<^item> Otherwise a sequence response builds a cursor and puts it into the cache, and any
    other response goes through \<open>get_data\<close>; then \<open>print(token, user_data)\<close> runs, which
    calls \<open>Cursor.__str__\<close> on a cursor. (\<open>Token\<close> is taken to print without error.)
  \<^item> The cache is a \<open>WeakValueDictionary\<close> and the local \<open>user_data\<close> is the only strong
    reference to a new cursor: when the generator is left, by return or by exception,
    the entry is gone. So the state left holds no entry for the new cursor.
\<close>

definition pop_waiting :: "'t conn \<Rightarrow> token \<Rightarrow> 't conn" where
  "pop_waiting c tok = c\<lparr>waiting_respose := (waiting_respose c)(tok := None)\<rparr>"

definition read_response ::
  "('t msg_part list \<Rightarrow> bytes) \<Rightarrow> 't conn \<Rightarrow> bytes \<Rightarrow> decoded \<Rightarrow> error + 't conn" where
  "read_response enc c header_buff body =
     (case read_header header_buff of
        Inl e \<Rightarrow> Inl e
      | Inr (tok, len) \<Rightarrow>
          (case waiting_respose c tok of
             None \<Rightarrow> Inl KeyError
           | Some processed_query \<Rightarrow>
               (let c1 = pop_waiting c tok;
                    res = Response tok body
                in case cursor_cache c1 tok of
                     Some cur \<Rightarrow>
                       (case extend enc c1 cur res of
                          Inl e \<Rightarrow> Inl e
                        | Inr (c2, cur2) \<Rightarrow>
                            Inr (c2\<lparr>cursor_cache := (cursor_cache c2)(tok \<mapsto> cur2)\<rparr>))
                   | None \<Rightarrow>
                       if is_sequential res then
                         (case Cursor_init processed_query res of
                            Inl e \<Rightarrow> Inl e
                          | Inr user_data \<Rightarrow>
                              (case fmt_cursor user_data of
                                 Inl e \<Rightarrow> Inl e
                               | Inr printed \<Rightarrow> Inr c1))
                       else
                         (case get_data res of
                            Inl e \<Rightarrow> Inl e
                          | Inr user_data \<Rightarrow> Inr c1))))"

section \<open>Transport and connection (\<open>net/default_net/transport.py\<close>, \<open>core/net/connection.py\<close>)\<close>

text \<open>
  \<open>DefaultTransport.run_query\<close>. Without \<open>noreply\<close> it reads one frame and routes it; an
  empty inbox stands for the peer having closed the stream, where \<open>recvall\<close> raises
  \<open>ReqlDriverError("Connection is closed.")\<close>. The method returns nothing (\<open>None\<close>) for
  every query, so the result is the state it leaves, or the exception it raises.
\<close>

definition run_query ::
  "('t msg_part list \<Rightarrow> bytes) \<Rightarrow> 't conn \<Rightarrow> 't query \<Rightarrow> bool \<Rightarrow> error + 't conn" where
  "run_query enc c query noreply =
     (case transmit enc c query noreply of
        Inl e \<Rightarrow> Inl e
      | Inr c1 \<Rightarrow>
          if noreply then Inr c1
          else (case inbox c1 of
             [] \<Rightarrow> Inl (Reql ReqlDriverError (Text ''Connection is closed.''))
           | (header_buff, body) # rest \<Rightarrow>
               (case read_response enc (c1\<lparr>inbox := rest\<rparr>) header_buff body of
                  Inl e \<Rightarrow> Inl e
                | Inr c2 \<Rightarrow> Inr c2)))"

text \<open>\<open>DefaultClient.close\<close>.\<close>

definition client_close :: "'t conn \<Rightarrow> 't conn" where
  "client_close c = (if \<not> is_open c then c else c\<lparr>is_open := False\<rparr>)"

text \<open>\<open>DefaultTransport.close\<close>.\<close>

definition transport_close ::
  "('t msg_part list \<Rightarrow> bytes) \<Rightarrow> 't conn \<Rightarrow> 't query option \<Rightarrow> error + 't conn" where
  "transport_close enc c noreply_wait_quey =
     (let c1 = c\<lparr>closing := True\<rparr>
      in case (case noreply_wait_quey of
                 None \<Rightarrow> Inr c1
               | Some q \<Rightarrow> run_query enc c1 q False) of
           Inl e \<Rightarrow> Inl e
         | Inr c2 \<Rightarrow> Inr (client_close c2))"

text \<open>
  Modelled from the spec: \<open>core/net/token.py\<close> with \<open>TokenGenerator\<close> is not among the
  sources. \<open>new\<close> returns the next identifier of an increasing sequence and \<open>reset\<close>
  starts the sequence again at its seed, here 0.
\<close>

definition token_new :: "'t conn \<Rightarrow> token \<times> 't conn" where
  "token_new c = (Token (next_token c), c\<lparr>next_token := next_token c + 1\<rparr>)"

definition token_reset :: "'t conn \<Rightarrow> 't conn" where
  "token_reset c = c\<lparr>next_token := 0\<rparr>"

text \<open>\<open>Connection.close\<close>.\<close>

definition connection_close ::
  "('t msg_part list \<Rightarrow> bytes) \<Rightarrow> 't conn \<Rightarrow> bool \<Rightarrow> error + 't conn" where
  "connection_close enc c noreply_wait =
     (if \<not> is_open c then Inr c
      else let (noreply_wait_quey, c1) =
                 (if noreply_wait
                  then (let (tok, c') = token_new c in (Some (Q_NoReplayWait tok), c'))
                  else (None, c))
           in case transport_close enc c1 noreply_wait_quey of
                Inl e \<Rightarrow> Inl e
              | Inr c2 \<Rightarrow> Inr (token_reset c2))"

section \<open>Concrete inputs\<close>

text \<open>An encoder that writes the same six bytes for every message.\<close>

definition enc_fixed :: "unit msg_part list \<Rightarrow> bytes" where
  "enc_fixed message = ''[1,{}]''"

definition query_2_63 :: "unit query" where
  "query_2_63 = \<lparr>q_type = START, q_token = Token (2 ^ 63), term_type = None, kwargs = []\<rparr>"

definition frame_2_63 :: bytes where
  "frame_2_63 =
     [CHR 0x00, CHR 0x00, CHR 0x00, CHR 0x00, CHR 0x00, CHR 0x00, CHR 0x00, CHR 0x80,
      CHR 0x06, CHR 0x00, CHR 0x00, CHR 0x00] @ ''[1,{}]''"

definition query_1 :: "unit query" where
  "query_1 = \<lparr>q_type = START, q_token = Token 1, term_type = None, kwargs = []\<rparr>"

text \<open>The header of a frame with token 1 and an empty body, and one with token 7.\<close>

definition header_1 :: bytes where
  "header_1 =
     [CHR 0x01, CHR 0x00, CHR 0x00, CHR 0x00, CHR 0x00, CHR 0x00, CHR 0x00, CHR 0x00,
      CHR 0x00, CHR 0x00, CHR 0x00, CHR 0x00]"

definition header_7 :: bytes where
  "header_7 =
     [CHR 0x07, CHR 0x00, CHR 0x00, CHR 0x00, CHR 0x00, CHR 0x00, CHR 0x00, CHR 0x00,
      CHR 0x00, CHR 0x00, CHR 0x00, CHR 0x00]"

definition body_of :: "int \<Rightarrow> json list \<Rightarrow> int option \<Rightarrow> decoded" where
  "body_of t r e =
     \<lparr>r_type = t, r_data = r, backtrace = None, profile = None, error_type = e,
      response_note = None\<rparr>"

text \<open>An open connection with empty tables.\<close>

definition conn_fresh :: "unit conn" where
  "conn_fresh =
     \<lparr>is_open = True, closing = False, sent = [], inbox = [],
      waiting_respose = Map.empty, cursor_cache = Map.empty, next_token = 2\<rparr>"

text \<open>The cursor that \<open>Cursor.__init__\<close> builds from a first batch of two items.\<close>

definition cursor_1 :: "unit cursor" where
  "cursor_1 =
     \<lparr>c_query = query_1, items = [JInt 10, JInt 20], completed = False,
      threshold = Bound 2, outstanding_requests = Unset, c_error = Unset\<rparr>"

text \<open>A cursor with the initial values of the lines commented out in \<open>__init__\<close>.\<close>

definition cursor_legacy :: "unit cursor" where
  "cursor_legacy = cursor_1\<lparr>outstanding_requests := Bound 0, c_error := Bound None\<rparr>"

text \<open>
  Stand-ins for the injected codecs and the library functions, for running the handshake
  on concrete messages. The decoder knows six messages by name; the encoder writes
  \<open>{}\<close>; base64 is the identity; the key derivation, the MAC and the hash return 32
  bytes that tell their uses apart.
\<close>

definition stub_decode :: "bytes \<Rightarrow> error + jdict" where
  "stub_decode b =
     (if b = ''version-ok'' then
        Inr [''success'' \<mapsto> JBool True, ''min_protocol_version'' \<mapsto> JInt 0,
             ''max_protocol_version'' \<mapsto> JInt 0]
      else if b = ''denied'' then
        Inr [''success'' \<mapsto> JBool False, ''error_code'' \<mapsto> JInt 12,
             ''error'' \<mapsto> JStr ''Wrong password'']
      else if b = ''broken'' then
        Inr [''success'' \<mapsto> JBool False, ''error_code'' \<mapsto> JInt 1,
             ''error'' \<mapsto> JStr ''Bad request'']
      else if b = ''first'' then
        Inr [''success'' \<mapsto> JBool True,
             ''authentication'' \<mapsto> JStr ''r=abcdefghijklmnopqrXYZ,s=salt,i=1'']
      else if b = ''first-again'' then
        Inr [''success'' \<mapsto> JInt 1,
             ''authentication'' \<mapsto> JStr ''r=abcdefghijklmnopqrXYZ,s=salt,i=1'',
             ''extra'' \<mapsto> JNull]
      else if b = ''first-foreign'' then
        Inr [''success'' \<mapsto> JBool True,
             ''authentication'' \<mapsto> JStr ''r=zbcdefghijklmnopqrXYZ,s=salt,i=1'']
      else if b = ''final'' then
        Inr [''success'' \<mapsto> JBool True,
             ''authentication'' \<mapsto> JStr ''v=ssssssssssssssssssssssssssssssss'']
      else Inl ValueError)"

definition prims_stub :: prims where
  "prims_stub =
     \<lparr>json_decode = stub_decode,
      json_encode = (\<lambda>items. ''{}''),
      int_of_str = (\<lambda>s. if s = ''1'' then Inr 1 else Inl ValueError),
      b64encode = (\<lambda>b. b),
      b64decode = (\<lambda>b. Inr b),
      pbkdf2_hmac_sha256 = (\<lambda>pwd salt n. Inr ''kkkkkkkkkkkkkkkkkkkkkkkkkkkkkkkk''),
      hmac_sha256 =
        (\<lambda>key msg. if msg = ''Client Key'' then ''AAAAAAAAAAAAAAAAAAAAAAAAAAAAAAAA''
                    else if msg = ''Server Key'' then ''SSSSSSSSSSSSSSSSSSSSSSSSSSSSSSSS''
                    else if key = ''SSSSSSSSSSSSSSSSSSSSSSSSSSSSSSSS''
                    then ''ssssssssssssssssssssssssssssssss''
                    else ''aaaaaaaaaaaaaaaaaaaaaaaaaaaaaaaa''),
      sha256 = (\<lambda>data. ''hhhhhhhhhhhhhhhhhhhhhhhhhhhhhhhh'')\<rparr>"

text \<open>A fresh handshake object, and one that still holds the state of an earlier run.\<close>

definition hs_new :: handshake where
  "hs_new = HandshakeV1_0 ''admin'' ''secret''"

definition hs_used :: handshake where
  "hs_used = hs_new\<lparr>random_nonce := ''old'', first_client_message := ''n=admin,r=old'',
                    server_signature := ''stale''\<rparr>"

text \<open>
  The 18 random bytes of a run, the state after \<open>__initialize_connection\<close>, the initial
  message, the authentication request and the state at the end of an accepted run.
\<close>

definition rand18 :: bytes where
  "rand18 = ''abcdefghijklmnopqr''"

definition hs_ready :: handshake where
  "hs_ready =
     \<lparr>username = ''admin'', password = ''secret'', random_nonce = ''abcdefghijklmnopqr'',
      first_client_message = ''n=admin,r=abcdefghijklmnopqr'', server_signature = []\<rparr>"

definition initial_message :: bytes where
  "initial_message = [CHR 0xC3, CHR 0xBD, CHR 0xC2, CHR 0x34] @ ''{}'' @ [CHR 0x00]"

definition proof_message :: bytes where
  "proof_message = ''{}'' @ [CHR 0x00]"

definition hs_done :: handshake where
  "hs_done = hs_ready\<lparr>server_signature := ''ssssssssssssssssssssssssssssssss''\<rparr>"

text \<open>
  A world in which every host accepts connections and one certificate file exists, and
  two configurations: one with timeout 0, one with a trust-store path that names no file.
\<close>

definition env_example :: env where
  "env_example = \<lparr>tcp = (\<lambda>host port timeout. Connected), files = {''/etc/ssl/ca.pem''}\<rparr>"

definition cfg_zero_timeout :: connection_config where
  "cfg_zero_timeout =
     \<lparr>cfg_host = ''localhost'', cfg_port = 28015, cfg_db = ''test'', cfg_user = ''admin'',
      cfg_password = '''', cfg_timeout = 0, cfg_ssl = None\<rparr>"

definition cfg_missing_cert :: connection_config where
  "cfg_missing_cert =
     \<lparr>cfg_host = ''localhost'', cfg_port = 28015, cfg_db = ''test'', cfg_user = ''admin'',
      cfg_password = '''', cfg_timeout = 20, cfg_ssl = Some ''/no/such/ca.pem''\<rparr>"
section \<open>Properties\<close>

lemmas response_type_defs =
  SUCCESS_ATOM_def SUCCESS_SEQUENCE_def SUCCESS_PARTIAL_def WAIT_COMPLETE_def
  SERVER_INFO_def CLIENT_ERROR_def COMPILE_ERROR_def RUNTIME_ERROR_def

lemmas error_type_defs =
  INTERNAL_def RESOURCE_LIMIT_def QUERY_LOGIC_def NON_EXISTENCE_def OP_FAILED_def
  OP_INDETERMINATE_def USER_def PERMISSION_ERROR_def

subsection \<open>Frame codec\<close>

lemma length_le_bytes: "length (le_bytes n v) = n"
  by (induction n arbitrary: v) simp_all

lemma le_nat_le_bytes: "v < 256 ^ n \<Longrightarrow> le_nat (le_bytes n v) = v"
proof (induction n arbitrary: v)
  case 0
  then show ?case by simp
next
  case (Suc n)
  from Suc.prems have "v div 256 < 256 ^ n"
    by (simp add: less_mult_imp_div_less mult.commute)
  with Suc.IH have "le_nat (le_bytes n (v div 256)) = v div 256" .
  then show ?case by simp
qed

lemma unpack_pack:
  assumes "pack_QL t l = Inr h"
  shows "unpack_qL h = Inr (if t < 2 ^ 63 then t else t - 2 ^ 64, l)"
proof -
  from assms have t: "0 \<le> t" "t < 2 ^ 64" and l: "l < 2 ^ 32"
    and h: "h = le_bytes 8 (nat t) @ le_bytes 4 l"
    by (auto simp: pack_QL_def split: if_splits)
  have len: "length h = 12" by (simp add: h length_le_bytes)
  have tk: "take 8 h = le_bytes 8 (nat t)" by (simp add: h length_le_bytes)
  have dr: "drop 8 h = le_bytes 4 l" by (simp add: h length_le_bytes)
  have "nat t < 256 ^ 8" using t by simp
  then have a: "le_nat (take 8 h) = nat t"
    unfolding tk by (rule le_nat_le_bytes)
  have "l < 256 ^ 4" using l by simp
  then have b: "le_nat (drop 8 h) = l"
    unfolding dr by (rule le_nat_le_bytes)
  show ?thesis
    unfolding unpack_qL_def using len t by (auto simp: a b Let_def)
qed

text \<open>
  The round trip holds for every request whose token value is below \<open>2^63\<close>: the parsed
  header gives the token back and the number of body bytes behind the header.
\<close>

lemma serialize_read_header_small_token:
  assumes "serialize enc q = Inr frame" and "tvalue (q_token q) < 2 ^ 63"
  shows "read_header (take 12 frame) = Inr (q_token q, length (drop 12 frame))"
proof -
  from assms(1) obtain h where p: "pack_QL (tvalue (q_token q)) (length (drop 12 frame)) = Inr h"
      and fr: "take 12 frame = h"
    by (auto simp: serialize_def Let_def pack_QL_def length_le_bytes split: sum.splits if_splits)
  from unpack_pack [OF p] assms(2) show ?thesis
    by (simp add: read_header_def fr)
qed

subsection \<open>Evaluating frames\<close>

text \<open>Unfolding \<open>le_bytes\<close> at a numeral width, for evaluating concrete frames.\<close>

lemma le_bytes_numeral:
  "le_bytes (numeral k) v = char_of (v mod 256) # le_bytes (pred_numeral k) (v div 256)"
  using le_bytes.simps(2) [of "pred_numeral k" v] by (simp only: numeral_eq_Suc [of k])

lemmas eval_bytes = le_bytes_numeral char_of_eq_iff

lemma serialize_enc_fixed:
  "serialize enc_fixed q =
     (case pack_QL (tvalue (q_token q)) 6 of
        Inl e \<Rightarrow> Inl e
      | Inr h \<Rightarrow> Inr (h @ ''[1,{}]''))"
proof -
  have L: "length (enc_fixed m) = 6" for m
    by (simp add: enc_fixed_def)
  show ?thesis
    unfolding serialize_def Let_def L by (simp add: enc_fixed_def split: sum.splits)
qed

lemma read_header_1: "read_header header_1 = Inr (Token 1, 0)"
  by (simp add: read_header_def unpack_qL_def header_1_def)

lemma read_header_7: "read_header header_7 = Inr (Token 7, 0)"
  by (simp add: read_header_def unpack_qL_def header_7_def)

lemma serialize_query_1:
  "serialize enc_fixed query_1 =
     Inr ([CHR 0x01, CHR 0x00, CHR 0x00, CHR 0x00, CHR 0x00, CHR 0x00, CHR 0x00, CHR 0x00,
           CHR 0x06, CHR 0x00, CHR 0x00, CHR 0x00] @ ''[1,{}]'')"
  by (simp add: serialize_enc_fixed query_1_def pack_QL_def eval_bytes)

lemma q_token_query_1: "q_token query_1 = Token 1"
  by (simp add: query_1_def)


lemma serialize_2_63: "serialize enc_fixed query_2_63 = Inr frame_2_63"
  by (simp add: serialize_enc_fixed query_2_63_def pack_QL_def eval_bytes frame_2_63_def)

lemma read_header_2_63: "read_header (take 12 frame_2_63) = Inr (Token (- (2 ^ 63)), 6)"
proof -
  have "le_nat (take 8 (take 12 frame_2_63)) = 9223372036854775808"
    and "le_nat (drop 8 (take 12 frame_2_63)) = 6"
    and "length (take 12 frame_2_63) = 12"
    by (simp_all add: frame_2_63_def)
  then show ?thesis
    by (simp add: read_header_def unpack_qL_def)
qed

text \<open>
  C4. Frame round trip: serializing a request and parsing the 12-byte header of the
  frame should give back the request's token and the number of body bytes. The body
  length comes back, but \<open>serialize\<close> packs the token as an unsigned 64-bit integer
  (\<open>"<QL"\<close>) and \<open>read_response\<close> unpacks it as a signed one (\<open>"<qL"\<close>): for the request
  with token \<open>2^63\<close> the frame is built and its header parses to the token \<open>-2^63\<close>.
\<close>

theorem frame_roundtrip_loses_high_token:
  "serialize enc_fixed query_2_63 = Inr frame_2_63
   \<and> read_header (take 12 frame_2_63) = Inr (Token (- (2 ^ 63)), 6)
   \<and> Token (- (2 ^ 63)) \<noteq> q_token query_2_63"
proof -
  have "Token (- (2 ^ 63)) \<noteq> q_token query_2_63"
    by (simp add: query_2_63_def)
  with serialize_2_63 read_header_2_63 show ?thesis by blast
qed

subsection \<open>Response router\<close>

lemma Response_sel:
  "r_type (Response tok d) = r_type d"
  "r_data (Response tok d) = r_data d"
  "error_type (Response tok d) = error_type d"
  by (simp_all add: Response_def)

lemma body_of_sel:
  "r_type (body_of t r e) = t"
  "r_data (body_of t r e) = r"
  "error_type (body_of t r e) = e"
  by (simp_all add: body_of_def)

lemmas is_type_defs =
  is_sequential_def is_success_atom_def is_success_partial_def is_success_sequence_def
  is_server_info_def is_wait_complete_def is_client_error_def is_compile_error_def
  is_runtime_error_def

text \<open>
  C2. A response whose token has neither a registered cursor nor a pending request should
  end in a driver-level error. \<open>read_response\<close> pops the token from the table of waiting
  requests without a default: on a connection with empty tables, a frame with token 7
  raises \<open>KeyError\<close>, which is no \<open>ReqlDriverError\<close> and no \<open>ReqlError\<close> at all.
\<close>

theorem unmatched_token_raises_KeyError:
  "read_response enc_fixed conn_fresh header_7 (body_of SUCCESS_ATOM [JInt 42] None) = Inl KeyError
   \<and> \<not> is_driver_error KeyError \<and> \<not> is_reql_error KeyError"
  by (simp add: read_response_def read_header_7 conn_fresh_def)

text \<open>The same holds whatever the cursor cache holds: the pop comes first.\<close>

lemma read_response_not_waiting:
  assumes "read_header header_buff = Inr (tok, n)" and "waiting_respose c tok = None"
  shows "read_response enc c header_buff body = Inl KeyError"
  using assms by (simp add: read_response_def)

lemma cursor_init_1:
  "Cursor_init query_1 (Response (Token 1) (body_of SUCCESS_PARTIAL [JInt 10, JInt 20] None)) = Inr cursor_1"
  by (simp add: Cursor_init_def extend_internal_def Response_sel body_of_sel cursor_1_def
      is_success_partial_def)

lemma err_type_of_table:
  "err_type_of (Some INTERNAL) = ReqlInternalError"
  "err_type_of (Some RESOURCE_LIMIT) = ReqlResourceLimitError"
  "err_type_of (Some QUERY_LOGIC) = ReqlQueryLogicError"
  "err_type_of (Some NON_EXISTENCE) = ReqlNonExistenceError"
  "err_type_of (Some OP_FAILED) = ReqlOpFailedError"
  "err_type_of (Some OP_INDETERMINATE) = ReqlOpIndeterminateError"
  "err_type_of (Some USER) = ReqlUserError"
  "err_type_of (Some PERMISSION_ERROR) = ReqlPermissionError"
  "err_type_of None = ReqlRuntimeError"
  by (simp_all add: err_type_of_def error_type_defs)

text \<open>
  \<open>Response.get_data\<close> classifies a response by its type as the router should: the first
  element of the data array for \<open>SUCCESS_ATOM\<close> and \<open>SERVER_INFO\<close>, nothing for
  \<open>WAIT_COMPLETE\<close>, and for an error response the typed error of \<open>make_error\<close>, raised.
\<close>

lemma get_data_classifies:
  "r_type res = SUCCESS_ATOM \<Longrightarrow> r_data res = v # vs \<Longrightarrow> get_data res = Inr (Atom v)"
  "r_type res = SERVER_INFO \<Longrightarrow> r_data res = v # vs \<Longrightarrow> get_data res = Inr (Atom v)"
  "r_type res = WAIT_COMPLETE \<Longrightarrow> get_data res = Inr PyNone"
  "r_type res = CLIENT_ERROR \<Longrightarrow> r_data res = v # vs
     \<Longrightarrow> get_data res = Inl (Reql ReqlDriverError (FromServer v))"
  "r_type res = COMPILE_ERROR \<Longrightarrow> r_data res = v # vs
     \<Longrightarrow> get_data res = Inl (Reql ReqlServerCompileError (FromServer v))"
  "r_type res = RUNTIME_ERROR \<Longrightarrow> r_data res = v # vs
     \<Longrightarrow> get_data res = Inl (Reql (err_type_of (error_type res)) (FromServer v))"
  by (simp_all add: get_data_def make_error_def is_type_defs response_type_defs)

text \<open>
  A cursor that \<open>Cursor.__init__\<close> builds from a sequence response has no attribute
  \<open>error\<close> and no attribute \<open>outstanding_requests\<close>.
\<close>

lemma Cursor_init_sequential:
  assumes "is_sequential res"
  shows "\<exists>cur. Cursor_init q res = Inr cur \<and> c_error cur = Unset
               \<and> outstanding_requests cur = Unset"
  using assms
  by (auto simp: Cursor_init_def extend_internal_def is_type_defs response_type_defs)

text \<open>
  So every first \<open>SUCCESS_PARTIAL\<close> or \<open>SUCCESS_SEQUENCE\<close> response to a pending request ends
  \<open>read_response\<close> with \<open>AttributeError\<close>, raised where the new cursor is printed.
\<close>

lemma read_response_sequential_raises:
  assumes "read_header header_buff = Inr (tok, n)"
      and "waiting_respose c tok = Some q"
      and "cursor_cache c tok = None"
      and "r_type body = SUCCESS_PARTIAL \<or> r_type body = SUCCESS_SEQUENCE"
  shows "read_response enc c header_buff body = Inl AttributeError"
proof -
  have s: "is_sequential (Response tok body)"
    using assms(4) by (simp add: is_sequential_def Response_sel)
  from Cursor_init_sequential [OF s, of q] obtain cur where
      i: "Cursor_init q (Response tok body) = Inr cur" and e: "c_error cur = Unset"
    by blast
  have f: "fmt_cursor cur = Inl AttributeError"
    using e by (simp add: fmt_cursor_def getattr_def)
  have "cursor_cache (pop_waiting c tok) tok = None"
    using assms(3) by (simp add: pop_waiting_def)
  with assms(1,2) s i f show ?thesis
    by (simp add: read_response_def Let_def)
qed

lemma transmit_query_1:
  "transmit enc_fixed
     (conn_fresh\<lparr>inbox := frames\<rparr>) query_1 False
     = Inr (conn_fresh
              \<lparr>inbox := frames, waiting_respose := [Token 1 \<mapsto> query_1],
               sent := [[CHR 0x01, CHR 0x00, CHR 0x00, CHR 0x00, CHR 0x00, CHR 0x00, CHR 0x00,
                         CHR 0x00, CHR 0x06, CHR 0x00, CHR 0x00, CHR 0x00] @ ''[1,{}]'']\<rparr>)"
  by (simp add: transmit_def build_query_def serialize_query_1 sendall_def conn_fresh_def
      q_token_query_1)

lemma run_query_first_batch:
  assumes "t = SUCCESS_PARTIAL \<or> t = SUCCESS_SEQUENCE"
  shows "run_query enc_fixed (conn_fresh\<lparr>inbox := [(header_1, body_of t r None)]\<rparr>)
           query_1 False = Inl AttributeError"
proof -
  let ?c = "conn_fresh
              \<lparr>inbox := [(header_1, body_of t r None)],
               waiting_respose := [Token 1 \<mapsto> query_1],
               sent := [[CHR 0x01, CHR 0x00, CHR 0x00, CHR 0x00, CHR 0x00, CHR 0x00, CHR 0x00,
                         CHR 0x00, CHR 0x06, CHR 0x00, CHR 0x00, CHR 0x00] @ ''[1,{}]'']\<rparr>"
  have "read_response enc_fixed (?c\<lparr>inbox := []\<rparr>) header_1 (body_of t r None)
          = Inl AttributeError"
    by (rule read_response_sequential_raises [OF read_header_1])
       (simp_all add: conn_fresh_def body_of_sel assms)
  then show ?thesis
    by (simp add: run_query_def transmit_query_1)
qed

text \<open>
  C5. A response to a pending request should resolve the request by its type; for
  \<open>SUCCESS_PARTIAL\<close> and \<open>SUCCESS_SEQUENCE\<close> with a new cursor seeded with the batch. Here
  \<open>query_1\<close> is sent and the server answers with a first batch: the cursor is built,
  without an attribute \<open>error\<close>, and \<open>run_query\<close> ends with \<open>AttributeError\<close>, for the partial
  and for the complete sequence.
\<close>

theorem first_batch_response_raises:
  "run_query enc_fixed
     (conn_fresh\<lparr>inbox := [(header_1, body_of SUCCESS_PARTIAL [JInt 10, JInt 20] None)]\<rparr>)
     query_1 False = Inl AttributeError
   \<and> run_query enc_fixed
     (conn_fresh\<lparr>inbox := [(header_1, body_of SUCCESS_SEQUENCE [JInt 10, JInt 20] None)]\<rparr>)
     query_1 False = Inl AttributeError
   \<and> Cursor_init query_1 (Response (Token 1) (body_of SUCCESS_PARTIAL [JInt 10, JInt 20] None))
       = Inr cursor_1
   \<and> fmt_cursor cursor_1 = Inl AttributeError"
proof -
  have "fmt_cursor cursor_1 = Inl AttributeError"
    by (simp add: fmt_cursor_def getattr_def cursor_1_def)
  with run_query_first_batch [of SUCCESS_PARTIAL "[JInt 10, JInt 20]"]
    run_query_first_batch [of SUCCESS_SEQUENCE "[JInt 10, JInt 20]"] cursor_init_1
  show ?thesis by simp
qed

subsection \<open>Connection close\<close>

text \<open>
  \<open>Connection.close\<close> without the wait shuts the socket and resets the token generator;
  the two tables of the protocol object stay as they are.
\<close>

lemma connection_close_keeps_tables:
  assumes "connection_close enc c False = Inr c'"
  shows "waiting_respose c' = waiting_respose c \<and> cursor_cache c' = cursor_cache c
         \<and> \<not> is_open c'"
  using assms
  by (auto simp: connection_close_def transport_close_def client_close_def token_reset_def
      Let_def split: if_splits)

subsection \<open>Cursor\<close>

lemma maybe_fetch_batch_issues:
  assumes "maybe_fetch_batch enc c cur = Inr (c1, cur1, issued)"
      and "c_error cur = Bound err" and "threshold cur = Bound th"
      and "outstanding_requests cur = Bound n"
  shows "issued \<longleftrightarrow> err = None \<and> length (items cur) < th \<and> n = 0"
  using assms
  by (auto simp: maybe_fetch_batch_def getattr_def Let_def split: sum.splits if_splits)

text \<open>
  C3. The counter \<open>outstanding_requests\<close> of a cursor should always be 0 or 1. The cursor
  that \<open>Cursor.__init__\<close> builds has no such attribute, and \<open>extend\<close> on it raises
  \<open>AttributeError\<close> at its first statement. With the initial values of the lines
  commented out in \<open>__init__\<close> (counter 0, error \<open>None\<close>), \<open>extend\<close> leaves the counter
  at \<open>-1\<close>: it decrements before it looks whether to fetch.
\<close>

theorem extend_on_new_cursor_raises:
  "Cursor_init query_1 (Response (Token 1) (body_of SUCCESS_PARTIAL [JInt 10, JInt 20] None))
     = Inr cursor_1
   \<and> outstanding_requests cursor_1 = Unset
   \<and> extend enc_fixed conn_fresh cursor_1
         (Response (Token 1) (body_of SUCCESS_PARTIAL [JInt 30] None)) = Inl AttributeError
   \<and> map_sum id (outstanding_requests \<circ> snd)
         (extend enc_fixed conn_fresh cursor_legacy
            (Response (Token 1) (body_of SUCCESS_PARTIAL [JInt 30] None))) = Inr (Bound (- 1))"
proof -
  have "outstanding_requests cursor_1 = Unset"
    by (simp add: cursor_1_def)
  moreover have "extend enc_fixed conn_fresh cursor_1
         (Response (Token 1) (body_of SUCCESS_PARTIAL [JInt 30] None)) = Inl AttributeError"
    by (simp add: extend_def getattr_def cursor_1_def)
  moreover have "map_sum id (outstanding_requests \<circ> snd)
         (extend enc_fixed conn_fresh cursor_legacy
            (Response (Token 1) (body_of SUCCESS_PARTIAL [JInt 30] None))) = Inr (Bound (- 1))"
    by (simp add: extend_def maybe_fetch_batch_def extend_internal_def getattr_def
        cursor_legacy_def cursor_1_def Response_sel body_of_sel is_success_partial_def)
  ultimately show ?thesis using cursor_init_1 by blast
qed

text \<open>
  No cursor that \<open>Cursor.__init__\<close> builds gets through \<open>extend\<close>: whatever the first
  response and the later one, \<open>extend\<close> raises \<open>AttributeError\<close> at its first statement,
  before anything is appended or recorded.
\<close>

lemma extend_internal_outstanding:
  assumes "extend_internal cur res = Inr cur'"
  shows "outstanding_requests cur' = outstanding_requests cur"
  using assms
  by (auto simp: extend_internal_def Let_def split: if_splits sum.splits)

lemma extend_after_init_raises:
  assumes "Cursor_init q first_response = Inr cur"
  shows "extend enc c cur res = Inl AttributeError"
proof -
  from extend_internal_outstanding [OF assms [unfolded Cursor_init_def]]
  have "outstanding_requests cur = Unset" by simp
  then show ?thesis
    by (simp add: extend_def getattr_def)
qed

text \<open>
  C6. \<open>extend\<close> should append the items of the response, set \<open>completed\<close> for
  \<open>SUCCESS_SEQUENCE\<close> and record the error of an error response. On the cursor that
  \<open>Cursor.__init__\<close> builds from a first batch, \<open>extend\<close> raises \<open>AttributeError\<close> for a
  partial batch, for a final batch and for a runtime error alike: nothing is appended,
  completed or recorded.
\<close>

theorem extend_appends_nothing:
  "Cursor_init query_1 (Response (Token 1) (body_of SUCCESS_PARTIAL [JInt 10, JInt 20] None))
     = Inr cursor_1
   \<and> extend enc_fixed conn_fresh cursor_1
        (Response (Token 1) (body_of SUCCESS_PARTIAL [JInt 30] None)) = Inl AttributeError
   \<and> extend enc_fixed conn_fresh cursor_1
        (Response (Token 1) (body_of SUCCESS_SEQUENCE [JInt 30] None)) = Inl AttributeError
   \<and> extend enc_fixed conn_fresh cursor_1
        (Response (Token 1) (body_of RUNTIME_ERROR [JStr ''boom''] (Some USER)))
       = Inl AttributeError"
  using cursor_init_1 extend_after_init_raises [OF cursor_init_1] by simp

subsection \<open>Handshake\<close>

text \<open>
  C10. A handshake response whose \<open>success\<close> field is falsy is classified by its numeric
  \<open>error_code\<close>: between 10 and 20 inclusive \<open>ReqlAuthError\<close> is raised, for every other
  code \<open>ReqlDriverError\<close> itself, each with the server's \<open>error\<close> field as message.
\<close>

theorem decode_json_response_failure:
  assumes "json_decode P response = Inr j"
      and "\<not> truthy_get j ''success''"
      and "j ''error_code'' = Some code" and "py_int P code = Inr n"
      and "j ''error'' = Some m"
  shows "(10 \<le> n \<and> n \<le> 20 \<longrightarrow>
            decode_json_response P response
              = Inl (Reql ReqlAuthError (AuthFailed (FromServer m))))
       \<and> (\<not> (10 \<le> n \<and> n \<le> 20) \<longrightarrow>
            decode_json_response P response = Inl (Reql ReqlDriverError (FromServer m)))
       \<and> (\<exists>e. decode_json_response P response = Inl e
              \<and> (is_auth_error e \<longleftrightarrow> 10 \<le> n \<and> n \<le> 20))"
  using assms by (simp add: decode_json_response_def)

lemma stub_decode_denied:
  "json_decode prims_stub ''denied''
     = Inr [''success'' \<mapsto> JBool False, ''error_code'' \<mapsto> JInt 12,
            ''error'' \<mapsto> JStr ''Wrong password'']"
  by (simp add: prims_stub_def stub_decode_def)

lemma stub_decode_broken:
  "json_decode prims_stub ''broken''
     = Inr [''success'' \<mapsto> JBool False, ''error_code'' \<mapsto> JInt 1,
            ''error'' \<mapsto> JStr ''Bad request'']"
  by (simp add: prims_stub_def stub_decode_def)

text \<open>The server's answers \<open>denied\<close> (code 12) and \<open>broken\<close> (code 1).\<close>

theorem decode_json_response_failure_witness:
  "decode_json_response prims_stub ''denied''
     = Inl (Reql ReqlAuthError (AuthFailed (FromServer (JStr ''Wrong password''))))
   \<and> decode_json_response prims_stub ''broken''
     = Inl (Reql ReqlDriverError (FromServer (JStr ''Bad request'')))"
proof -
  have a: "decode_json_response prims_stub ''denied''
     = Inl (Reql ReqlAuthError (AuthFailed (FromServer (JStr ''Wrong password''))))"
    using decode_json_response_failure [OF stub_decode_denied, of "JInt 12" 12 "JStr ''Wrong password''"]
    by (simp add: truthy_get_def py_int_def)
  have b: "decode_json_response prims_stub ''broken''
     = Inl (Reql ReqlDriverError (FromServer (JStr ''Bad request'')))"
    using decode_json_response_failure [OF stub_decode_broken, of "JInt 1" 1 "JStr ''Bad request''"]
    by (simp add: truthy_get_def py_int_def)
  from a b show ?thesis by blast
qed

lemma initialize_connection_nonce:
  assumes "initialize_connection P h rand = Inr (h1, m1)"
  shows "random_nonce h1 = b64encode P rand"
    and "first_client_message h1 = ''n='' @ username h @ '',r='' @ b64encode P rand"
    and "username h1 = username h" and "password h1 = password h"
  using assms
  by (auto simp: initialize_connection_def Let_def chain_to_bytes_def split: sum.splits)

lemma hs_read_response_empty:
  assumes "hs_read_response P response = Inr m"
  shows "m = []"
  using assms
  by (auto simp: hs_read_response_def split: sum.splits option.splits if_splits)

lemma decode_json_response_success:
  assumes "json_decode P response = Inr j" and "truthy_get j ''success''"
  shows "decode_json_response P response = Inr j"
  using assms by (simp add: decode_json_response_def)

lemma get_authentication_message_bytes:
  assumes "get_authentication_message j = Inr a"
  shows "\<exists>b. authentication_bytes j = Inr b"
  using assms by (auto simp: get_authentication_message_def split: sum.splits)

lemma prepare_auth_request_foreign_nonce:
  assumes "json_decode P response = Inr j" and "truthy_get j ''success''"
      and "get_authentication_message j = Inr a" and "a ''r'' = Some nonce"
      and "\<not> prefix (random_nonce h) nonce"
  shows "prepare_auth_request P h response
           = Inl (Reql ReqlAuthError (AuthFailed (Text ''Invalid nonce from server'')))"
proof -
  from get_authentication_message_bytes [OF assms(3)]
  obtain b where b: "authentication_bytes j = Inr b" by blast
  show ?thesis
    unfolding prepare_auth_request_def decode_json_response_success [OF assms(1,2)]
    using assms(3-5) b by (simp add: field_def)
qed

text \<open>
  C7. If the nonce in the server's authentication message does not start with the random
  nonce the client sent, the handshake ends with \<open>ReqlAuthError\<close>, and the generator has
  yielded the initial message and the empty message only: the authentication request,
  which carries the client proof, is never produced.
\<close>

theorem run_rejects_foreign_nonce:
  assumes "initialize_connection P (reset h) rand = Inr (h1, m1)"
      and "hs_read_response P init_response = Inr m2"
      and "json_decode P auth_response1 = Inr j" and "truthy_get j ''success''"
      and "get_authentication_message j = Inr a" and "a ''r'' = Some nonce"
      and "\<not> prefix (b64encode P rand) nonce"
  shows "run P h rand init_response auth_response1 auth_response2
           = ([m1, []],
              Inl (Reql ReqlAuthError (AuthFailed (Text ''Invalid nonce from server''))))"
proof -
  from initialize_connection_nonce(1) [OF assms(1)] assms(7)
  have "\<not> prefix (random_nonce h1) nonce" by simp
  from prepare_auth_request_foreign_nonce [OF assms(3-6) this]
  have p: "prepare_auth_request P h1 auth_response1
           = Inl (Reql ReqlAuthError (AuthFailed (Text ''Invalid nonce from server'')))" .
  from hs_read_response_empty [OF assms(2)] have "m2 = []" .
  with assms(1,2) p show ?thesis
    by (simp add: run_def)
qed

lemma stub_init:
  "initialize_connection prims_stub (reset hs_new) rand18 = Inr (hs_ready, initial_message)"
  by (simp add: initialize_connection_def reset_def hs_new_def HandshakeV1_0_def
      replace_char_def prims_stub_def rand18_def chain_to_bytes_def ascii_def utf8_def
      hs_ready_def initial_message_def V1_0_def eval_bytes protocol_version_def Let_def)

lemma stub_version_ok: "hs_read_response prims_stub ''version-ok'' = Inr []"
  by (simp add: hs_read_response_def decode_json_response_def prims_stub_def stub_decode_def
      truthy_get_def py_int_def protocol_version_def)

lemma stub_decode_foreign:
  "json_decode prims_stub ''first-foreign''
     = Inr [''success'' \<mapsto> JBool True,
            ''authentication'' \<mapsto> JStr ''r=zbcdefghijklmnopqrXYZ,s=salt,i=1'']"
  by (simp add: prims_stub_def stub_decode_def)

lemma stub_foreign_fields:
  "get_authentication_message
     [''success'' \<mapsto> JBool True,
      ''authentication'' \<mapsto> JStr ''r=zbcdefghijklmnopqrXYZ,s=salt,i=1'']
     = Inr [''r'' \<mapsto> ''zbcdefghijklmnopqrXYZ'', ''s'' \<mapsto> ''salt'', ''i'' \<mapsto> ''1'']"
  by (simp add: get_authentication_message_def authentication_bytes_def ascii_def
      split_once_def)

text \<open>A run against a server whose nonce starts with \<open>z\<close> instead of \<open>a\<close>.\<close>

theorem run_rejects_foreign_nonce_witness:
  "\<not> prefix (b64encode prims_stub rand18) ''zbcdefghijklmnopqrXYZ''
   \<and> run prims_stub hs_new rand18 ''version-ok'' ''first-foreign'' ''final''
       = ([initial_message, []],
          Inl (Reql ReqlAuthError (AuthFailed (Text ''Invalid nonce from server''))))"
proof -
  have t: "truthy_get [''success'' \<mapsto> JBool True,
            ''authentication'' \<mapsto> JStr ''r=zbcdefghijklmnopqrXYZ,s=salt,i=1''] ''success''"
    by (simp add: truthy_get_def)
  have r: "[''r'' \<mapsto> ''zbcdefghijklmnopqrXYZ'', ''s'' \<mapsto> ''salt'', ''i'' \<mapsto> ''1''] ''r''
             = Some ''zbcdefghijklmnopqrXYZ''"
    by simp
  have n: "\<not> prefix (b64encode prims_stub rand18) ''zbcdefghijklmnopqrXYZ''"
    by (simp add: prims_stub_def rand18_def)
  from run_rejects_foreign_nonce
         [OF stub_init stub_version_ok stub_decode_foreign t stub_foreign_fields r n] n
  show ?thesis by simp
qed

lemma reset_same:
  assumes "username h = username h'" and "password h = password h'"
  shows "reset h = reset h'"
  using assms by (cases h, cases h') (simp add: reset_def)

lemma prepare_auth_request_same:
  assumes "json_decode P r = Inr j" and "json_decode P r' = Inr j'"
      and "truthy_get j ''success''" and "truthy_get j' ''success''"
      and "j ''authentication'' = j' ''authentication''"
  shows "prepare_auth_request P h r = prepare_auth_request P h r'"
proof -
  have b: "authentication_bytes j = authentication_bytes j'"
    using assms(5) by (simp add: authentication_bytes_def)
  then have g: "get_authentication_message j = get_authentication_message j'"
    by (simp add: get_authentication_message_def)
  show ?thesis
    unfolding prepare_auth_request_def
      decode_json_response_success [OF assms(1,3)]
      decode_json_response_success [OF assms(2,4)] sum.case b g ..
qed

lemma read_auth_response_same:
  assumes "json_decode P r = Inr j" and "json_decode P r' = Inr j'"
      and "truthy_get j ''success''" and "truthy_get j' ''success''"
      and "j ''authentication'' = j' ''authentication''"
  shows "read_auth_response P h r = read_auth_response P h r'"
proof -
  have "authentication_bytes j = authentication_bytes j'"
    using assms(5) by (simp add: authentication_bytes_def)
  then have g: "get_authentication_message j = get_authentication_message j'"
    by (simp add: get_authentication_message_def)
  show ?thesis
    unfolding read_auth_response_def
      decode_json_response_success [OF assms(1,3)]
      decode_json_response_success [OF assms(2,4)] sum.case g ..
qed

text \<open>
  C8. Two runs of the handshake with the same random bytes, user name and password, whose
  server messages pass the version exchange and carry the same \<open>authentication\<close> strings
  (the server's first message with nonce, salt and iteration count, and its final message
  with the server signature), yield the same messages, the client proof among them, and
  end alike: with the same exception or the same accepted state. Neither what an earlier
  run left in the handshake object nor any other field of the server's JSON enters.
\<close>

theorem run_deterministic:
  assumes "username h = username h'" and "password h = password h'"
      and "hs_read_response P init_response = Inr m"
      and "hs_read_response P init_response' = Inr m'"
      and "json_decode P auth_response1 = Inr j1" and "json_decode P auth_response1' = Inr j1'"
      and "truthy_get j1 ''success''" and "truthy_get j1' ''success''"
      and "j1 ''authentication'' = j1' ''authentication''"
      and "json_decode P auth_response2 = Inr j2" and "json_decode P auth_response2' = Inr j2'"
      and "truthy_get j2 ''success''" and "truthy_get j2' ''success''"
      and "j2 ''authentication'' = j2' ''authentication''"
  shows "run P h rand init_response auth_response1 auth_response2
           = run P h' rand init_response' auth_response1' auth_response2'"
proof -
  have r: "reset h = reset h'"
    using assms(1,2) by (rule reset_same)
  have v: "hs_read_response P init_response = hs_read_response P init_response'"
    using hs_read_response_empty [OF assms(3)] hs_read_response_empty [OF assms(4)]
      assms(3,4) by simp
  have p: "prepare_auth_request P x auth_response1 = prepare_auth_request P x auth_response1'"
    for x by (rule prepare_auth_request_same [OF assms(5,6,7,8,9)])
  have a: "read_auth_response P x auth_response2 = read_auth_response P x auth_response2'"
    for x by (rule read_auth_response_same [OF assms(10,11,12,13,14)])
  show ?thesis
    unfolding run_def r v p a ..
qed

lemma stub_decode_first:
  "json_decode prims_stub ''first''
     = Inr [''success'' \<mapsto> JBool True,
            ''authentication'' \<mapsto> JStr ''r=abcdefghijklmnopqrXYZ,s=salt,i=1'']"
  by (simp add: prims_stub_def stub_decode_def)

lemma stub_decode_first_again:
  "json_decode prims_stub ''first-again''
     = Inr [''success'' \<mapsto> JInt 1,
            ''authentication'' \<mapsto> JStr ''r=abcdefghijklmnopqrXYZ,s=salt,i=1'',
            ''extra'' \<mapsto> JNull]"
  by (simp add: prims_stub_def stub_decode_def)

lemma stub_decode_final:
  "json_decode prims_stub ''final''
     = Inr [''success'' \<mapsto> JBool True,
            ''authentication'' \<mapsto> JStr ''v=ssssssssssssssssssssssssssssssss'']"
  by (simp add: prims_stub_def stub_decode_def)

lemma stub_first_fields:
  "get_authentication_message
     [''success'' \<mapsto> JBool True,
      ''authentication'' \<mapsto> JStr ''r=abcdefghijklmnopqrXYZ,s=salt,i=1'']
     = Inr [''r'' \<mapsto> ''abcdefghijklmnopqrXYZ'', ''s'' \<mapsto> ''salt'', ''i'' \<mapsto> ''1'']"
  by (simp add: get_authentication_message_def authentication_bytes_def ascii_def
      split_once_def)

lemma stub_xor:
  "xor_32B ''AAAAAAAAAAAAAAAAAAAAAAAAAAAAAAAA'' ''aaaaaaaaaaaaaaaaaaaaaaaaaaaaaaaa''
     = Inr ''                                ''"
  by (simp add: xor_32B_def char_of_eq_iff)

lemma stub_scram:
  "scram_proof prims_stub hs_ready ''r=abcdefghijklmnopqrXYZ,s=salt,i=1''
     [''r'' \<mapsto> ''abcdefghijklmnopqrXYZ'', ''s'' \<mapsto> ''salt'', ''i'' \<mapsto> ''1'']
     ''c=biws,r=abcdefghijklmnopqrXYZ''
     = Inr (''ssssssssssssssssssssssssssssssss'', ''                                '')"
  by (simp add: scram_proof_def field_def prims_stub_def stub_xor Let_def)

lemma stub_prepare:
  "prepare_auth_request prims_stub hs_ready ''first'' = Inr (hs_done, proof_message)"
  unfolding prepare_auth_request_def
    decode_json_response_success [OF stub_decode_first, simplified truthy_get_def, simplified]
  apply (simp add: stub_first_fields authentication_bytes_def ascii_def field_def
      hs_ready_def chain_to_bytes_def)
  apply (simp add: stub_scram [unfolded hs_ready_def] hs_done_def hs_ready_def
      proof_message_def)
  apply (simp add: prims_stub_def ascii_def chain_to_bytes_def hs_ready_def)
  done

lemma stub_final:
  "read_auth_response prims_stub hs_done ''final'' = Inr ()"
  unfolding read_auth_response_def
    decode_json_response_success [OF stub_decode_final, simplified truthy_get_def, simplified]
  by (simp add: get_authentication_message_def authentication_bytes_def ascii_def
      split_once_def field_def prims_stub_def hs_done_def hs_ready_def)

lemma stub_run_accepts:
  "run prims_stub hs_new rand18 ''version-ok'' ''first'' ''final''
     = ([initial_message, [], proof_message], Inr hs_done)"
  by (simp add: run_def stub_init stub_version_ok stub_prepare stub_final)

text \<open>
  A fresh handshake object and one that holds the state of an earlier run; a server's
  first message and one that differs in the \<open>success\<close> value and has a further field.
  Both runs yield the same three messages and are accepted.
\<close>

theorem run_deterministic_witness:
  "run prims_stub hs_new rand18 ''version-ok'' ''first'' ''final''
     = run prims_stub hs_used rand18 ''version-ok'' ''first-again'' ''final''
   \<and> run prims_stub hs_used rand18 ''version-ok'' ''first-again'' ''final''
     = ([initial_message, [], proof_message], Inr hs_done)"
proof -
  have u: "username hs_new = username hs_used" and p: "password hs_new = password hs_used"
    by (simp_all add: hs_used_def)
  have t1: "truthy_get [''success'' \<mapsto> JBool True,
            ''authentication'' \<mapsto> JStr ''r=abcdefghijklmnopqrXYZ,s=salt,i=1''] ''success''"
    and t1': "truthy_get [''success'' \<mapsto> JInt 1,
            ''authentication'' \<mapsto> JStr ''r=abcdefghijklmnopqrXYZ,s=salt,i=1'',
            ''extra'' \<mapsto> JNull] ''success''"
    and t2: "truthy_get [''success'' \<mapsto> JBool True,
            ''authentication'' \<mapsto> JStr ''v=ssssssssssssssssssssssssssssssss''] ''success''"
    by (simp_all add: truthy_get_def)
  have a1: "[''success'' \<mapsto> JBool True,
            ''authentication'' \<mapsto> JStr ''r=abcdefghijklmnopqrXYZ,s=salt,i=1''] ''authentication''
          = [''success'' \<mapsto> JInt 1,
            ''authentication'' \<mapsto> JStr ''r=abcdefghijklmnopqrXYZ,s=salt,i=1'',
            ''extra'' \<mapsto> JNull] ''authentication''"
    by simp
  have e: "run prims_stub hs_new rand18 ''version-ok'' ''first'' ''final''
     = run prims_stub hs_used rand18 ''version-ok'' ''first-again'' ''final''"
    by (rule run_deterministic
          [OF u p stub_version_ok stub_version_ok stub_decode_first stub_decode_first_again
              t1 t1' a1 stub_decode_final stub_decode_final t2 t2 refl])
  with stub_run_accepts show ?thesis by simp
qed

subsection \<open>Connection construction\<close>

text \<open>
  The configuration with timeout 0 is built, and so is the one whose trust-store path
  names no file: nothing is rejected at construction. The missing file is found when
  \<open>new_connection\<close> has already opened the TCP connection.
\<close>

theorem construction_accepts_bad_parameters:
  "ConnectionConfig_new prims_stub ''localhost'' 28015 ''test'' ''admin'' None 0 None None
     = Inr cfg_zero_timeout
   \<and> cfg_timeout cfg_zero_timeout = 0
   \<and> ConnectionConfig_new prims_stub ''localhost'' 28015 ''test'' ''admin'' None 20
         (Some ''/no/such/ca.pem'') None
     = Inr cfg_missing_cert
   \<and> ''/no/such/ca.pem'' \<notin> files env_example
   \<and> new_connection prims_stub env_example ''localhost'' 28015 ''test'' ''admin'' None 20
         (Some ''/no/such/ca.pem'') None
     = ([TcpConnect ''localhost'' 28015 20, LoadCert ''/no/such/ca.pem''],
        Inl (Reql ReqlDriverError (Text ''SSL handshake failed'')))"
  by (simp add: new_connection_def ConnectionConfig_new_def DefaultClient_connect_def
      or_str_def DEFAULT_PWD_def cfg_zero_timeout_def cfg_missing_cert_def env_example_def)

text \<open>
  C9, amended. \<open>ConnectionConfig.new\<close> checks none of its arguments: without a URL it
  returns, for every host, port, database, user, password, timeout and trust-store path,
  the configuration that holds them as given (the password empty when none is given).
  The trust-store file is read only in \<open>DefaultClient.connect\<close>, after the TCP connection
  has been opened: where that succeeds and the file does not exist, \<open>new_connection\<close>
  fails with a driver error, the TCP connect being its first operation.
\<close>

theorem construction_validates_nothing:
  "ConnectionConfig_new P host port db user pwd timeout ssl None
     = Inr \<lparr>cfg_host = host, cfg_port = port, cfg_db = db, cfg_user = user,
            cfg_password = or_str pwd DEFAULT_PWD, cfg_timeout = timeout, cfg_ssl = ssl\<rparr>
   \<and> (tcp E host port timeout = Connected \<and> path \<notin> files E \<longrightarrow>
        new_connection P E host port db user pwd timeout (Some path) None
          = ([TcpConnect host port timeout, LoadCert path],
             Inl (Reql ReqlDriverError (Text ''SSL handshake failed''))))"
  by (simp add: new_connection_def ConnectionConfig_new_def DefaultClient_connect_def)

text \<open>A negative timeout and a missing file, in the example world.\<close>

theorem construction_validates_nothing_witness:
  "tcp env_example ''db.example'' 28015 (- 5) = Connected
   \<and> ''/missing.pem'' \<notin> files env_example
   \<and> ConnectionConfig_new prims_stub ''db.example'' 28015 ''test'' ''admin'' (Some ''pw'') (- 5)
         (Some ''/missing.pem'') None
     = Inr \<lparr>cfg_host = ''db.example'', cfg_port = 28015, cfg_db = ''test'', cfg_user = ''admin'',
            cfg_password = ''pw'', cfg_timeout = - 5, cfg_ssl = Some ''/missing.pem''\<rparr>
   \<and> new_connection prims_stub env_example ''db.example'' 28015 ''test'' ''admin'' (Some ''pw'')
         (- 5) (Some ''/missing.pem'') None
     = ([TcpConnect ''db.example'' 28015 (- 5), LoadCert ''/missing.pem''],
        Inl (Reql ReqlDriverError (Text ''SSL handshake failed'')))"
proof -
  have a: "tcp env_example ''db.example'' 28015 (- 5) = Connected"
    and b: "''/missing.pem'' \<notin> files env_example"
    by (simp_all add: env_example_def)
  from construction_validates_nothing
         [of prims_stub "''db.example''" 28015 "''test''" "''admin''" "Some ''pw''" "- 5"
             "Some ''/missing.pem''" env_example "''/missing.pem''"] a b
  show ?thesis by (simp add: or_str_def)
qed
end
